theory Spec2Isabelle
  imports Main
begin

section \<open>JavaScript values and strings\<close>

text \<open>
  The backend is a Node.js program. A JavaScript string is modelled as a \<open>string\<close>: each
  \<open>char\<close> stands for one code unit, so \<open>length\<close> is \<open>.length\<close> and \<open>take n\<close> is
  \<open>.slice(0, n)\<close>. The values the program reads out of request and response bodies are
  JSON values; \<open>JUndefined\<close> is what a missing property reads as. A number is given by
  the string that \<open>Number.prototype.toString\<close> prints for it (\<open>60\<close>, \<open>0.5\<close>,
  \<open>1e+21\<close>): the program only tests numbers for zero and prints them, and a number is
  zero exactly when it prints as \<open>0\<close>.
\<close>

datatype jsval =
    JUndefined
  | JNull
  | JBool bool
  | JNum string
  | JStr string
  | JArr "jsval list"
  | JObj "(string \<times> jsval) list"

fun truthy :: "jsval \<Rightarrow> bool" where
  "truthy JUndefined = False"
| "truthy JNull = False"
| "truthy (JBool b) = b"
| "truthy (JNum n) = (n \<noteq> ''0'')"
| "truthy (JStr s) = (s \<noteq> [])"
| "truthy (JArr xs) = True"
| "truthy (JObj kvs) = True"

fun nullish :: "jsval \<Rightarrow> bool" where
  "nullish JUndefined = True"
| "nullish JNull = True"
| "nullish v = False"

fun typeof :: "jsval \<Rightarrow> string" where
  "typeof JUndefined = ''undefined''"
| "typeof JNull = ''object''"
| "typeof (JBool b) = ''boolean''"
| "typeof (JNum n) = ''number''"
| "typeof (JStr s) = ''string''"
| "typeof (JArr xs) = ''object''"
| "typeof (JObj kvs) = ''object''"

text \<open>An object built by \<open>JSON.parse\<close> keeps the last of two equal keys.\<close>

definition lookup :: "(string \<times> jsval) list \<Rightarrow> string \<Rightarrow> jsval" where
  "lookup kvs k = (case map_of (rev kvs) k of None \<Rightarrow> JUndefined | Some v \<Rightarrow> v)"

text \<open>
  \<open>member v k\<close> is \<open>v.k\<close> for a value \<open>v\<close> that is neither \<open>null\<close> nor \<open>undefined\<close> and a
  name \<open>k\<close> that no prototype defines (the program reads \<open>error\<close>, \<open>message\<close>,
  \<open>choices\<close>, \<open>content\<close>, \<open>text\<close>, \<open>entry\<close> and \<open>entries\<close>): only an object has it.
\<close>

fun member :: "jsval \<Rightarrow> string \<Rightarrow> jsval" where
  "member (JObj kvs) k = lookup kvs k"
| "member v k = JUndefined"

text \<open>\<open>v[0]\<close> for a value that is neither \<open>null\<close> nor \<open>undefined\<close>.\<close>

fun index0 :: "jsval \<Rightarrow> jsval" where
  "index0 (JArr xs) = (case xs of [] \<Rightarrow> JUndefined | x # _ \<Rightarrow> x)"
| "index0 (JStr s) = (case s of [] \<Rightarrow> JUndefined | c # _ \<Rightarrow> JStr [c])"
| "index0 (JObj kvs) = lookup kvs ''0''"
| "index0 v = JUndefined"

fun str_includes :: "string \<Rightarrow> string \<Rightarrow> bool" where
  "str_includes [] t = (t = [])"
| "str_includes (c # cs) t = (take (length t) (c # cs) = t \<or> str_includes cs t)"

function decimal :: "nat \<Rightarrow> string" where
  "decimal n =
     (if n < 10 then [''0123456789'' ! n]
      else decimal (n div 10) @ [''0123456789'' ! (n mod 10)])"
  by pat_completeness auto
termination
  by (relation "measure id") auto

declare decimal.simps [simp del]

text \<open>\<open>Array.prototype.join\<close> on an array of strings.\<close>

fun join :: "string \<Rightarrow> string list \<Rightarrow> string" where
  "join sep [] = []"
| "join sep [s] = s"
| "join sep (s # t # ts) = s @ sep @ join sep (t # ts)"

section \<open>Errors\<close>

text \<open>
  One constructor for each \<open>new Error(...)\<close> of the two source files, and
  \<open>RuntimeError\<close> for what the runtime throws itself (a rejected \<open>fetch\<close>, the
  \<open>SyntaxError\<close> of \<open>response.json()\<close>, a \<open>TypeError\<close>), with its message.
\<close>

datatype js_error =
    RateLimitExceeded
  | OpenRouterAPIError nat string
  | InvalidResponseStructure
  | TranscriptionFailed nat string
  | OpenRouterFailed nat string
  | GroqFailed nat string
  | RuntimeError string

fun message :: "js_error \<Rightarrow> string" where
  "message RateLimitExceeded =
     ''Rate limit exceeded. Free tier models are currently busy. Please try again in a few minutes.''"
| "message (OpenRouterAPIError st m) = ''OpenRouter API error: '' @ decimal st @ '' - '' @ m"
| "message InvalidResponseStructure = ''Invalid response structure from OpenRouter API''"
| "message (TranscriptionFailed st m) = ''Transcription failed: '' @ decimal st @ '' - '' @ m"
| "message (OpenRouterFailed st t) = ''OpenRouter failed: '' @ decimal st @ '' - '' @ t"
| "message (GroqFailed st t) = ''Groq API failed: '' @ decimal st @ '' - '' @ t"
| "message (RuntimeError m) = m"

text \<open>
  The string a template literal puts in for a value. An object is converted by its
  \<open>toString\<close> method. An object read from JSON inherits the one that gives
  \<open>[object Object]\<close>, unless it has a key \<open>toString\<close> of its own: the value of that key
  is no function, \<open>valueOf\<close> gives no primitive value either, and the conversion throws
  a \<open>TypeError\<close>. An array joins the strings of its elements, \<open>null\<close> and
  \<open>undefined\<close> giving the empty string.
\<close>

fun toString :: "jsval \<Rightarrow> js_error + string"
  and toStrings :: "jsval list \<Rightarrow> js_error + string list" where
  "toString JUndefined = Inr ''undefined''"
| "toString JNull = Inr ''null''"
| "toString (JBool b) = Inr (if b then ''true'' else ''false'')"
| "toString (JNum n) = Inr n"
| "toString (JStr s) = Inr s"
| "toString (JArr xs) =
     (case toStrings xs of Inl e \<Rightarrow> Inl e | Inr ss \<Rightarrow> Inr (join '','' ss))"
| "toString (JObj kvs) =
     (if ''toString'' \<in> fst ` set kvs
      then Inl (RuntimeError ''Cannot convert object to primitive value'')
      else Inr ''[object Object]'')"
| "toStrings [] = Inr []"
| "toStrings (x # xs) =
     (case (if nullish x then Inr [] else toString x) of
        Inl e \<Rightarrow> Inl e
      | Inr s \<Rightarrow> (case toStrings xs of Inl e \<Rightarrow> Inl e | Inr ss \<Rightarrow> Inr (s # ss)))"

text \<open>The names of \<open>null\<close> and \<open>undefined\<close> in the messages of the runtime.\<close>

definition nullName :: "jsval \<Rightarrow> string" where
  "nullName v = (if v = JNull then ''null'' else ''undefined'')"

definition cannotRead :: "jsval \<Rightarrow> string \<Rightarrow> js_error" where
  "cannotRead v k =
     RuntimeError (''Cannot read properties of '' @ nullName v @ '' (reading '' @
       [CHR 0x27] @ k @ [CHR 0x27] @ '')'')"

text \<open>\<open>v.k\<close>, which throws a \<open>TypeError\<close> on \<open>null\<close> and \<open>undefined\<close>, and \<open>v?.k\<close>.\<close>

definition propOf :: "jsval \<Rightarrow> string \<Rightarrow> js_error + jsval" where
  "propOf v k = (if nullish v then Inl (cannotRead v k) else Inr (member v k))"

definition optProp :: "jsval \<Rightarrow> string \<Rightarrow> jsval" where
  "optProp v k = (if nullish v then JUndefined else member v k)"

text \<open>\<open>const { k } = v\<close>, where \<open>src\<close> is the text of the expression \<open>v\<close>.\<close>

definition destructure :: "jsval \<Rightarrow> string \<Rightarrow> string \<Rightarrow> js_error + jsval" where
  "destructure v k src =
     (if nullish v
      then Inl (RuntimeError (''Cannot destructure property '' @ [CHR 0x27] @ k @ [CHR 0x27] @
                  '' of '' @ [CHR 0x27] @ src @ [CHR 0x27] @ '' as it is '' @ nullName v @ ''.''))
      else Inr (member v k))"

section \<open>The remote endpoint\<close>

text \<open>
  What \<open>await fetch(...)\<close> gives: a rejection with its message (a network failure), or a
  response. \<open>json_body\<close> is what \<open>response.json()\<close> gives: \<open>Inl m\<close> when the body is no
  JSON text and the call rejects with a \<open>SyntaxError\<close> of message \<open>m\<close>.
\<close>

record response =
  status :: nat
  statusText :: string
  body_text :: string
  json_body :: "string + jsval"

datatype fetch_result = Rejected string | Resolved response

definition ok :: "response \<Rightarrow> bool" where
  "ok r = (200 \<le> status r \<and> status r \<le> 299)"

text \<open>
  A run leaves a trace: each completion request with its model (\<open>None\<close> when the index is
  outside the chain and \<open>MODEL_FALLBACKS[modelIndex]\<close> is \<open>undefined\<close>), system prompt and
  user message, and each \<open>sleep(ms)\<close>.
\<close>

datatype event = Fetch "string option" string string | Sleep nat

definition MODEL_FALLBACKS :: "string option \<Rightarrow> string list" where
  "MODEL_FALLBACKS OPENROUTER_MODEL =
     [case OPENROUTER_MODEL of
        None \<Rightarrow> ''deepseek/deepseek-r1:free''
      | Some m \<Rightarrow> if m = [] then ''deepseek/deepseek-r1:free'' else m,
      ''google/gemini-2.0-flash-exp:free'',
      ''meta-llama/llama-3.2-3b-instruct:free'',
      ''nousresearch/hermes-3-llama-3.1-405b:free'',
      ''openai/gpt-3.5-turbo'']"

definition modelAt :: "string list \<Rightarrow> nat \<Rightarrow> string option" where
  "modelAt chain modelIndex =
     (if modelIndex < length chain then Some (chain ! modelIndex) else None)"

section \<open>callOpenRouter, with retries and model fallbacks\<close>

definition maxRetries :: nat where
  "maxRetries = 2"

definition baseDelay :: nat where
  "baseDelay = 3000"

text \<open>
  How one invocation ends: it returns, it throws, or it sleeps and returns what
  \<open>callOpenRouter(systemPrompt, userMessage, retryCount, modelIndex)\<close> gives.
\<close>

datatype step = Return jsval | Throw js_error | Again nat nat nat

text \<open>The \<open>try\<close> block, from the response of \<open>fetch\<close> on.\<close>

definition tryBody :: "string list \<Rightarrow> fetch_result \<Rightarrow> nat \<Rightarrow> nat \<Rightarrow> step" where
  "tryBody chain fr retryCount modelIndex =
     (case fr of
        Rejected m \<Rightarrow> Throw (RuntimeError m)
      | Resolved resp \<Rightarrow>
          (case json_body resp of
             Inl m \<Rightarrow> Throw (RuntimeError m)
           | Inr data \<Rightarrow>
               if status resp = 429 then
                 (if int modelIndex < int (length chain) - 1
                  then Again 2000 0 (modelIndex + 1)
                  else if retryCount < maxRetries
                  then Again (baseDelay * 2 ^ retryCount) (retryCount + 1) 0
                  else Throw RateLimitExceeded)
               else if \<not> ok resp then
                 (case propOf data ''error'' of
                    Inl e \<Rightarrow> Throw e
                  | Inr err \<Rightarrow>
                      (let m = optProp err ''message'';
                           errorMessage = (if truthy m then m else JStr (statusText resp))
                       in if 500 \<le> status resp \<and> retryCount < maxRetries
                          then Again (baseDelay * 2 ^ retryCount) (retryCount + 1) modelIndex
                          else (case toString errorMessage of
                                  Inl e \<Rightarrow> Throw e
                                | Inr shown \<Rightarrow> Throw (OpenRouterAPIError (status resp) shown))))
               else
                 (case propOf data ''choices'' of
                    Inl e \<Rightarrow> Throw e
                  | Inr choices \<Rightarrow>
                      if \<not> truthy choices \<or> \<not> truthy (index0 choices)
                         \<or> \<not> truthy (member (index0 choices) ''message'')
                      then Throw InvalidResponseStructure
                      else Return (member (member (index0 choices) ''message'') ''content''))))"

text \<open>The \<open>catch\<close> block: it sees every error thrown inside the \<open>try\<close> block.\<close>

definition catchBlock :: "js_error \<Rightarrow> nat \<Rightarrow> nat \<Rightarrow> step" where
  "catchBlock e retryCount modelIndex =
     (if str_includes (message e) ''fetch failed'' \<and> retryCount < maxRetries
      then Again (baseDelay * 2 ^ retryCount) (retryCount + 1) modelIndex
      else Throw e)"

definition attempt :: "string list \<Rightarrow> fetch_result \<Rightarrow> nat \<Rightarrow> nat \<Rightarrow> step" where
  "attempt chain fr retryCount modelIndex =
     (case tryBody chain fr retryCount modelIndex of
        Throw e \<Rightarrow> catchBlock e retryCount modelIndex
      | s \<Rightarrow> s)"

text \<open>
  A run is the trace so far and the outcome, \<open>None\<close> while the call has not returned.
  The list holds the results of the successive \<open>fetch\<close> calls and is the fuel of the
  recursion: each invocation sends one request and consumes one result. When the list is
  used up the last request is still awaiting its response. The call returns on a sequence
  of results when it has an outcome on a finite prefix of it. The recursive call is
  returned without \<open>await\<close>, so its error does not pass through the caller's \<open>catch\<close>
  block. \<open>console.log\<close> is left out.
\<close>

type_synonym 'a run = "event list \<times> (js_error + 'a) option"

definition after :: "event list \<Rightarrow> 'a run \<Rightarrow> 'a run" where
  "after evs r = (evs @ fst r, snd r)"

fun callOpenRouter ::
  "string list \<Rightarrow> fetch_result list \<Rightarrow> string \<Rightarrow> string \<Rightarrow> nat \<Rightarrow> nat \<Rightarrow> jsval run" where
  "callOpenRouter chain [] systemPrompt userMessage retryCount modelIndex =
     ([Fetch (modelAt chain modelIndex) systemPrompt userMessage], None)"
| "callOpenRouter chain (fr # frs) systemPrompt userMessage retryCount modelIndex =
     (case attempt chain fr retryCount modelIndex of
        Return v \<Rightarrow>
          ([Fetch (modelAt chain modelIndex) systemPrompt userMessage], Some (Inr v))
      | Throw e \<Rightarrow>
          ([Fetch (modelAt chain modelIndex) systemPrompt userMessage], Some (Inl e))
      | Again ms retryCount' modelIndex' \<Rightarrow>
          after [Fetch (modelAt chain modelIndex) systemPrompt userMessage, Sleep ms]
            (callOpenRouter chain frs systemPrompt userMessage retryCount' modelIndex'))"

section \<open>Sentiment extraction\<close>

text \<open>
  \<open>\s\<close> of a regular expression and \<open>String.prototype.trim\<close> take the same characters
  as white space; below 256 these are tab, line feed, vertical tab, form feed, carriage
  return, space and the no-break space.
\<close>

definition isSpace :: "char \<Rightarrow> bool" where
  "isSpace c =
     (c \<in> set [CHR 0x09, CHR 0x0A, CHR 0x0B, CHR 0x0C, CHR 0x0D, CHR 0x20, CHR 0xA0])"

definition trim :: "string \<Rightarrow> string" where
  "trim s = rev (dropWhile isSpace (rev (dropWhile isSpace s)))"

text \<open>
  Under the flag \<open>i\<close> a character matches a character of the pattern when the two have
  the same upper case. The patterns of the program are ASCII, and a character outside
  ASCII never matches an ASCII one, so the upper case is needed for ASCII letters only.
  \<open>toLowerCase\<close> is applied to group 1 of a match, which holds ASCII letters.
\<close>

definition toUpperCase :: "char \<Rightarrow> char" where
  "toUpperCase c =
     (case map_of (zip ''abcdefghijklmnopqrstuvwxyz'' ''ABCDEFGHIJKLMNOPQRSTUVWXYZ'') c of
        None \<Rightarrow> c
      | Some u \<Rightarrow> u)"

definition toLowerCase :: "char \<Rightarrow> char" where
  "toLowerCase c =
     (case map_of (zip ''ABCDEFGHIJKLMNOPQRSTUVWXYZ'' ''abcdefghijklmnopqrstuvwxyz'') c of
        None \<Rightarrow> c
      | Some l \<Rightarrow> l)"

text \<open>A literal of the pattern matched at the start of the text: what follows it.\<close>

fun matchLit :: "string \<Rightarrow> string \<Rightarrow> string option" where
  "matchLit [] s = Some s"
| "matchLit (p # ps) [] = None"
| "matchLit (p # ps) (c # cs) =
     (if toUpperCase c = toUpperCase p then matchLit ps cs else None)"

text \<open>
  \<open>/\[SENTIMENT:\s*(positive|negative)\]/i\<close> matched at the start of the text: the
  text of group 1 and what follows the match. After the greedy \<open>\s*\<close> the next
  character must be a letter, so giving white space back never helps.
\<close>

definition sentimentAt :: "string \<Rightarrow> (string \<times> string) option" where
  "sentimentAt s =
     (case matchLit ''[SENTIMENT:'' s of
        None \<Rightarrow> None
      | Some r1 \<Rightarrow>
          (let r2 = dropWhile isSpace r1;
               alt = (case matchLit ''positive'' r2 of
                        Some r3 \<Rightarrow> Some r3
                      | None \<Rightarrow> matchLit ''negative'' r2)
           in case alt of
                None \<Rightarrow> None
              | Some r3 \<Rightarrow>
                  (case matchLit '']'' r3 of
                     None \<Rightarrow> None
                   | Some r4 \<Rightarrow> Some (take 8 r2, r4))))"

text \<open>\<open>/\[SENTIMENT:\s*(positive|negative)\]\s*/i\<close>, the pattern of the \<open>replace\<close>.\<close>

definition sentimentSpaceAt :: "string \<Rightarrow> (string \<times> string) option" where
  "sentimentSpaceAt s =
     (case sentimentAt s of
        None \<Rightarrow> None
      | Some (g, r) \<Rightarrow> Some (g, dropWhile isSpace r))"

text \<open>
  The leftmost match of a pattern in a text: what stands before the match, group 1, and
  what follows the match.
\<close>

fun firstMatch ::
  "(string \<Rightarrow> (string \<times> string) option) \<Rightarrow> string \<Rightarrow> (string \<times> string \<times> string) option" where
  "firstMatch re [] = (case re [] of None \<Rightarrow> None | Some (g, r) \<Rightarrow> Some ([], g, r))"
| "firstMatch re (c # cs) =
     (case re (c # cs) of
        Some (g, r) \<Rightarrow> Some ([], g, r)
      | None \<Rightarrow>
          (case firstMatch re cs of
             None \<Rightarrow> None
           | Some (pre, g, r) \<Rightarrow> Some (c # pre, g, r)))"

definition extractNature :: "string \<Rightarrow> string" where
  "extractNature aiResponse =
     (case firstMatch sentimentAt aiResponse of
        Some (pre, g, r) \<Rightarrow> map toLowerCase g
      | None \<Rightarrow> ''positive'')"

text \<open>
  \<open>aiResponse.replace(/\[SENTIMENT:\s*(positive|negative)\]\s*/i, "").trim()\<close>: the
  first match is cut out.
\<close>

definition cleanedAnalysis :: "string \<Rightarrow> string" where
  "cleanedAnalysis aiResponse =
     trim (case firstMatch sentimentSpaceAt aiResponse of
             Some (pre, g, r) \<Rightarrow> pre @ r
           | None \<Rightarrow> aiResponse)"

section \<open>The route /analyze\<close>

text \<open>
  A handler's reply: the status code and the JSON payload. The clock reading for the
  payload's timestamp is a parameter.
\<close>

type_synonym reply = "nat \<times> jsval"

definition analyzePrompt :: string where
  "analyzePrompt = join [CHR 0x0A]
     [''You are an empathetic AI journal companion. Your role is to:'',
      ''1. Analyze the emotional tone and mood of the user's journal entry'',
      ''2. Identify key themes, concerns, or highlights'',
      ''3. Generate 2-3 thoughtful, empathetic follow-up questions that encourage deeper reflection'',
      ''4. Provide validation and support'',
      '''',
      ''IMPORTANT GUIDELINES:'',
      ''- Use SIMPLE, everyday language that anyone can understand'',
      ''- AVOID jargon, technical terms, or complex vocabulary'',
      ''- Write like you're talking to a friend - warm, natural, and conversational'',
      ''- If the user writes in Hindi or uses Hindi words, respond in Hinglish (Hindi words written in English script mixed with English)'',
      ''- Keep sentences short and clear'',
      ''- KEEP YOUR RESPONSE BRIEF - Maximum 3-4 short sentences total'',
      ''- Use line breaks between thoughts for easy reading'',
      ''- At the very beginning of your response, include a sentiment marker: [SENTIMENT: positive] or [SENTIMENT: negative]'',
      '''',
      ''After the sentiment marker, provide a SHORT empathetic response (50-100 words max).'',
      '''',
      ''Example format for English entry:'',
      ''[SENTIMENT: positive]'',
      ''That sounds amazing! I can feel your excitement.'',
      '''',
      ''What made this moment special for you?'',
      ''How are you planning to celebrate?'',
      '''',
      ''Example format for Hindi/Hinglish entry:'',
      ''[SENTIMENT: negative]'',
      ''Aaj kaafi tough raha lagta hai. It's okay to feel overwhelmed.'',
      '''',
      ''Kya hua specifically?'',
      ''Abhi kaise feel kar rahe ho?'']"

definition strOf :: "jsval \<Rightarrow> string" where
  "strOf v = (case v of JStr s \<Rightarrow> s | _ \<Rightarrow> [])"

text \<open>Calling a string method on a value that is no string throws a \<open>TypeError\<close>.\<close>

definition notAString :: "jsval \<Rightarrow> string \<Rightarrow> string \<Rightarrow> js_error" where
  "notAString v name method =
     (if nullish v then cannotRead v method
      else RuntimeError (name @ ''.'' @ method @ '' is not a function''))"

text \<open>The \<open>catch\<close> block of the route.\<close>

definition analyzeCatch :: "js_error \<Rightarrow> reply" where
  "analyzeCatch e =
     (if str_includes (message e) ''Rate limit exceeded'' then
        (429, JObj [(''error'', JStr ''Rate limit exceeded''),
                    (''message'', JStr ''Too many requests. Please wait a moment and try again.''),
                    (''retryAfter'', JNum ''60'')])
      else if str_includes (message e) ''OpenRouter API error'' then
        (502, JObj [(''error'', JStr ''External API error''),
                    (''message'',
                     JStr ''Failed to communicate with AI service. Please try again later.''),
                    (''details'', JStr (message e))])
      else
        (500, JObj [(''error'', JStr ''Internal server error''),
                    (''message'',
                     JStr ''An unexpected error occurred while analyzing your entry'')]))"

text \<open>What the route does with the completion, from \<open>extractNature(aiResponse)\<close> on.\<close>

definition analyzeReply :: "string \<Rightarrow> jsval \<Rightarrow> reply" where
  "analyzeReply now aiResponse =
     (if typeof aiResponse \<noteq> ''string'' then
        analyzeCatch (notAString aiResponse ''aiResponse'' ''match'')
      else
        (200, JObj [(''success'', JBool True),
                    (''analysis'', JStr (cleanedAnalysis (strOf aiResponse))),
                    (''nature'', JStr (extractNature (strOf aiResponse))),
                    (''timestamp'', JStr now)]))"

text \<open>
  \<open>body\<close> is \<open>req.body\<close>. The result is the trace of the remote calls and the reply,
  \<open>None\<close> while \<open>callOpenRouter\<close> has not returned.
\<close>

definition analyze ::
  "string list \<Rightarrow> fetch_result list \<Rightarrow> string \<Rightarrow> jsval \<Rightarrow> event list \<times> reply option" where
  "analyze chain frs now body =
     (case destructure body ''entry'' ''req.body'' of
        Inl e \<Rightarrow> ([], Some (analyzeCatch e))
      | Inr entry \<Rightarrow>
          if \<not> truthy entry \<or> typeof entry \<noteq> ''string'' then
            ([], Some (400, JObj [(''error'', JStr ''Invalid input''),
                                  (''message'',
                                   JStr ''Request body must contain an \"entry\" field with a string value'')]))
          else if length (trim (strOf entry)) = 0 then
            ([], Some (400, JObj [(''error'', JStr ''Invalid input''),
                                  (''message'', JStr ''Journal entry cannot be empty'')]))
          else
            (let trimmedEntry =
                   (if length (strOf entry) > 10000 then take 10000 (strOf entry)
                    else strOf entry);
                 r = callOpenRouter chain frs analyzePrompt trimmedEntry 0 0
             in case snd r of
                  None \<Rightarrow> (fst r, None)
                | Some (Inl e) \<Rightarrow> (fst r, Some (analyzeCatch e))
                | Some (Inr aiResponse) \<Rightarrow> (fst r, Some (analyzeReply now aiResponse))))"

section \<open>The route /transcribe\<close>

text \<open>
  The uploads directory is the set of the paths that exist. \<open>fs.unlink\<close> rejects when
  the path does not exist.
\<close>

record upload =
  path :: string
  originalname :: string

definition noSuchFile :: "string \<Rightarrow> string \<Rightarrow> js_error" where
  "noSuchFile syscall p =
     RuntimeError (''ENOENT: no such file or directory, '' @ syscall @ '' '' @
       [CHR 0x27] @ p @ [CHR 0x27])"

definition unlink :: "string set \<Rightarrow> string \<Rightarrow> js_error + string set" where
  "unlink files p = (if p \<in> files then Inr (files - {p}) else Inl (noSuchFile ''unlink'' p))"

text \<open>\<open>await fs.unlink(p).catch(() => {})\<close>: a failure is ignored.\<close>

definition unlinkQuietly :: "string set \<Rightarrow> string \<Rightarrow> string set" where
  "unlinkQuietly files p = (case unlink files p of Inl e \<Rightarrow> files | Inr files' \<Rightarrow> files')"

text \<open>
  \<open>transcribeAudio(filePath)\<close>: the file is read, then sent; \<open>fr\<close> is what the
  \<open>fetch\<close> of the transcription endpoint gives. Its \<open>catch\<close> block logs the error and
  throws it again.
\<close>

definition transcribeAudio :: "string set \<Rightarrow> string \<Rightarrow> fetch_result \<Rightarrow> js_error + jsval" where
  "transcribeAudio files filePath fr =
     (if filePath \<notin> files then Inl (noSuchFile ''open'' filePath)
      else case fr of
        Rejected m \<Rightarrow> Inl (RuntimeError m)
      | Resolved resp \<Rightarrow>
          if \<not> ok resp then
            (let errorData = (case json_body resp of Inl m \<Rightarrow> JObj [] | Inr d \<Rightarrow> d)
             in case propOf errorData ''error'' of
                  Inl e \<Rightarrow> Inl e
                | Inr err \<Rightarrow>
                    (let m = optProp err ''message''
                     in case toString (if truthy m then m else JStr (statusText resp)) of
                          Inl e \<Rightarrow> Inl e
                        | Inr shown \<Rightarrow> Inl (TranscriptionFailed (status resp) shown)))
          else
            (case json_body resp of
               Inl m \<Rightarrow> Inl (RuntimeError m)
             | Inr data \<Rightarrow>
                 (case propOf data ''text'' of
                    Inl e \<Rightarrow> Inl e
                  | Inr t \<Rightarrow> Inr (if truthy t then t else JStr []))))"

text \<open>\<open>file\<close> is \<open>req.file\<close>. The result is the uploads directory afterwards and the reply.\<close>

definition transcribe ::
  "string set \<Rightarrow> string \<Rightarrow> upload option \<Rightarrow> fetch_result \<Rightarrow> string set \<times> reply" where
  "transcribe files now file fr =
     (case file of
        None \<Rightarrow>
          (files, (400, JObj [(''error'', JStr ''No file uploaded''),
                              (''message'',
                               JStr ''Please upload an audio file with the field name \"audio\"'')]))
      | Some f \<Rightarrow>
          (case transcribeAudio files (path f) fr of
             Inl e \<Rightarrow>
               (files, (500, JObj [(''error'', JStr ''Internal server error''),
                                   (''message'',
                                    JStr ''An error occurred while transcribing the audio file'')]))
           | Inr t \<Rightarrow>
               (unlinkQuietly files (path f),
                (200, JObj [(''success'', JBool True), (''text'', t),
                            (''timestamp'', JStr now)]))))"

section \<open>server.js\<close>

text \<open>
  The repository holds a second, shorter server, \<^verbatim>\<open>server.js\<close>, with functions of the
  same names; its definitions carry the suffix \<open>_server\<close>. \<open>extractNature\<close>, the
  pattern of the \<open>replace\<close> and \<open>MODEL_FALLBACKS\<close> are the same in both files. Its
  \<open>callOpenRouter\<close> has no \<open>try\<close> block and never retries a model.
\<close>

definition optIndex0 :: "jsval \<Rightarrow> jsval" where
  "optIndex0 v = (if nullish v then JUndefined else index0 v)"

fun callOpenRouter_server ::
  "string list \<Rightarrow> fetch_result list \<Rightarrow> string \<Rightarrow> string \<Rightarrow> nat \<Rightarrow> nat \<Rightarrow> jsval run" where
  "callOpenRouter_server chain [] systemPrompt userMessage retryCount modelIndex =
     ([Fetch (modelAt chain modelIndex) systemPrompt userMessage], None)"
| "callOpenRouter_server chain (fr # frs) systemPrompt userMessage retryCount modelIndex =
     (case fr of
        Rejected m \<Rightarrow>
          ([Fetch (modelAt chain modelIndex) systemPrompt userMessage],
           Some (Inl (RuntimeError m)))
      | Resolved resp \<Rightarrow>
          if status resp = 429 \<and> int modelIndex < int (length chain) - 1 then
            after [Fetch (modelAt chain modelIndex) systemPrompt userMessage, Sleep 2000]
              (callOpenRouter_server chain frs systemPrompt userMessage 0 (modelIndex + 1))
          else
            ([Fetch (modelAt chain modelIndex) systemPrompt userMessage],
             Some (if \<not> ok resp then Inl (OpenRouterFailed (status resp) (body_text resp))
                   else case json_body resp of
                     Inl m \<Rightarrow> Inl (RuntimeError m)
                   | Inr data \<Rightarrow>
                       (case propOf data ''choices'' of
                          Inl e \<Rightarrow> Inl e
                        | Inr choices \<Rightarrow>
                            (let content =
                                   optProp (optProp (optIndex0 choices) ''message'') ''content''
                             in Inr (if truthy content then content
                                     else JStr ''No response''))))))"

definition analyzePrompt_server :: string where
  "analyzePrompt_server =
     ''You are an empathetic AI journal companion... (same as your previous long prompt)''"

definition analyze_server ::
  "string list \<Rightarrow> fetch_result list \<Rightarrow> jsval \<Rightarrow> event list \<times> reply option" where
  "analyze_server chain frs body =
     (let internal = (\<lambda>e. (500, JObj [(''error'', JStr ''Internal error''),
                                       (''message'', JStr (message e))]))
      in case destructure body ''entry'' ''req.body'' of
        Inl e \<Rightarrow> ([], Some (internal e))
      | Inr entry \<Rightarrow>
          if \<not> truthy entry \<or> typeof entry \<noteq> ''string'' \<or> trim (strOf entry) = [] then
            ([], Some (400, JObj [(''error'', JStr ''Invalid input''),
                                  (''message'', JStr ''Provide a valid entry string.'')]))
          else
            (let r = callOpenRouter_server chain frs analyzePrompt_server (strOf entry) 0 0
             in case snd r of
                  None \<Rightarrow> (fst r, None)
                | Some (Inl e) \<Rightarrow> (fst r, Some (internal e))
                | Some (Inr aiResponse) \<Rightarrow>
                    (fst r,
                     Some (if typeof aiResponse \<noteq> ''string'' then
                             internal (notAString aiResponse ''aiResponse'' ''match'')
                           else
                             (200, JObj [(''success'', JBool True),
                                         (''analysis'', JStr (cleanedAnalysis (strOf aiResponse))),
                                         (''nature'', JStr (extractNature (strOf aiResponse)))])))))"

definition transcribeAudio_server ::
  "string set \<Rightarrow> string \<Rightarrow> fetch_result \<Rightarrow> js_error + jsval" where
  "transcribeAudio_server files filePath fr =
     (if filePath \<notin> files then Inl (noSuchFile ''open'' filePath)
      else case fr of
        Rejected m \<Rightarrow> Inl (RuntimeError m)
      | Resolved resp \<Rightarrow>
          if \<not> ok resp then Inl (GroqFailed (status resp) (body_text resp))
          else
            (case json_body resp of
               Inl m \<Rightarrow> Inl (RuntimeError m)
             | Inr data \<Rightarrow>
                 (case propOf data ''text'' of
                    Inl e \<Rightarrow> Inl e
                  | Inr t \<Rightarrow> Inr (if truthy t then t else JStr []))))"

text \<open>The \<open>finally\<close> block removes the upload on every path that set \<open>uploadedFile\<close>.\<close>

definition transcribe_server ::
  "string set \<Rightarrow> upload option \<Rightarrow> fetch_result \<Rightarrow> string set \<times> reply" where
  "transcribe_server files file fr =
     (case file of
        None \<Rightarrow>
          (files, (400, JObj [(''error'', JStr ''Invalid input''),
                              (''message'',
                               JStr (''Request must include an audio file (field name: '' @
                                 [CHR 0x27] @ ''audio'' @ [CHR 0x27] @ '')''))]))
      | Some f \<Rightarrow>
          (let uploadedFile = path f;
               failed = (\<lambda>e. (500, JObj [(''error'', JStr ''Transcription error''),
                                         (''message'', JStr (message e))]));
               answer =
                 (case transcribeAudio_server files uploadedFile fr of
                    Inl e \<Rightarrow> failed e
                  | Inr t \<Rightarrow>
                      if typeof t \<noteq> ''string'' then failed (notAString t ''text'' ''trim'')
                      else if trim (strOf t) = [] then
                        (400, JObj [(''error'', JStr ''Transcription failed''),
                                    (''message'',
                                     JStr ''Could not extract text from the audio file.'')])
                      else (200, JObj [(''success'', JBool True), (''text'', t)]))
           in (if uploadedFile \<noteq> [] then unlinkQuietly files uploadedFile else files,
               answer)))"

section \<open>Notions of the specification\<close>

text \<open>
  The responses the specification speaks of. A rate-limit response has status 429 and a
  body that \<open>response.json()\<close> can read; a server-side error has a status from 500 on
  and a body that reads as a JSON value other than \<open>null\<close>. \<open>completionText\<close> is the
  field \<open>choices[0].message.content\<close> of a completion, and a call succeeds with \<open>v\<close>
  when the status is a success status and the body is a completion whose text is \<open>v\<close>.
  \<open>errorMessageOf\<close> is \<open>data.error?.message || response.statusText\<close>.
\<close>

definition rateLimited :: "fetch_result \<Rightarrow> bool" where
  "rateLimited fr =
     (case fr of
        Rejected m \<Rightarrow> False
      | Resolved resp \<Rightarrow> status resp = 429 \<and> (case json_body resp of Inl m \<Rightarrow> False | Inr d \<Rightarrow> True))"

definition serverError :: "fetch_result \<Rightarrow> bool" where
  "serverError fr =
     (case fr of
        Rejected m \<Rightarrow> False
      | Resolved resp \<Rightarrow>
          500 \<le> status resp \<and> (case json_body resp of Inl m \<Rightarrow> False | Inr d \<Rightarrow> \<not> nullish d))"

definition completionText :: "jsval \<Rightarrow> jsval option" where
  "completionText data =
     (case data of
        JObj kvs \<Rightarrow>
          (case lookup kvs ''choices'' of
             JArr (JObj c # cs) \<Rightarrow>
               (case lookup c ''message'' of JObj m \<Rightarrow> Some (lookup m ''content'') | _ \<Rightarrow> None)
           | _ \<Rightarrow> None)
      | _ \<Rightarrow> None)"

definition succeeds :: "fetch_result \<Rightarrow> jsval \<Rightarrow> bool" where
  "succeeds fr v =
     (case fr of
        Rejected m \<Rightarrow> False
      | Resolved resp \<Rightarrow>
          ok resp \<and> (case json_body resp of Inl m \<Rightarrow> False | Inr d \<Rightarrow> completionText d = Some v))"

definition errorMessageOf :: "jsval \<Rightarrow> response \<Rightarrow> jsval" where
  "errorMessageOf data resp =
     (let m = optProp (member data ''error'') ''message''
      in if truthy m then m else JStr (statusText resp))"

text \<open>
  The models a trace queried, and the user messages it sent.
\<close>

fun queried :: "event list \<Rightarrow> string option list" where
  "queried [] = []"
| "queried (Fetch m sp um # evs) = m # queried evs"
| "queried (Sleep ms # evs) = queried evs"

fun userMessages :: "event list \<Rightarrow> string list" where
  "userMessages [] = []"
| "userMessages (Fetch m sp um # evs) = um # userMessages evs"
| "userMessages (Sleep ms # evs) = userMessages evs"

text \<open>
  A text contains a sentiment tag when it has, somewhere, the characters of
  \<open>[SENTIMENT:\<close> in any case, then any white space, then \<open>positive\<close> or \<open>negative\<close>
  in any case, then \<open>]\<close>.
\<close>

definition sentimentWord :: "string \<Rightarrow> bool" where
  "sentimentWord g = (map toUpperCase g = ''POSITIVE'' \<or> map toUpperCase g = ''NEGATIVE'')"

definition hasSentimentTag :: "string \<Rightarrow> bool" where
  "hasSentimentTag s =
     (\<exists>pre t ws w post.
        s = pre @ t @ ws @ w @ '']'' @ post \<and>
        map toUpperCase t = ''[SENTIMENT:'' \<and>
        list_all isSpace ws \<and>
        sentimentWord w)"

text \<open>
  An entry is invalid when it is missing, not a string, empty, or white space only.
\<close>

definition invalidEntry :: "jsval \<Rightarrow> bool" where
  "invalidEntry entry = (case entry of JStr s \<Rightarrow> s = [] \<or> list_all isSpace s | _ \<Rightarrow> True)"

text \<open>
  Responses and an upload used as concrete inputs.
\<close>

definition tooManyRequests :: response where
  "tooManyRequests =
     \<lparr>status = 429, statusText = ''Too Many Requests'', body_text = ''{}'',
      json_body = Inr (JObj [])\<rparr>"

definition serviceUnavailable :: response where
  "serviceUnavailable =
     \<lparr>status = 503, statusText = ''Service Unavailable'', body_text = ''{}'',
      json_body = Inr (JObj [])\<rparr>"

definition badGatewayPage :: response where
  "badGatewayPage =
     \<lparr>status = 502, statusText = ''Bad Gateway'', body_text = ''<html>502 Bad Gateway</html>'',
      json_body = Inl ''Unexpected token < in JSON at position 0''\<rparr>"

definition completionHello :: response where
  "completionHello =
     \<lparr>status = 200, statusText = ''OK'',
      body_text = ''{\"choices\":[{\"message\":{\"content\":\"hello\"}}]}'',
      json_body = Inr (JObj [(''choices'',
        JArr [JObj [(''message'', JObj [(''content'', JStr ''hello'')])]])])\<rparr>"

definition completionNoContent :: response where
  "completionNoContent =
     \<lparr>status = 200, statusText = ''OK'',
      body_text = ''{\"choices\":[{\"message\":{\"role\":\"assistant\"}}]}'',
      json_body = Inr (JObj [(''choices'',
        JArr [JObj [(''message'', JObj [(''role'', JStr ''assistant'')])]])])\<rparr>"

definition badRequestPlain :: response where
  "badRequestPlain =
     \<lparr>status = 400, statusText = ''Bad Request'', body_text = ''Bad Request'',
      json_body = Inl ''Unexpected token B in JSON at position 0''\<rparr>"

definition badRequestFetchFailed :: response where
  "badRequestFetchFailed =
     \<lparr>status = 400, statusText = ''Bad Request'',
      body_text = ''{\"error\":{\"message\":\"fetch failed\"}}'',
      json_body = Inr (JObj [(''error'', JObj [(''message'', JStr ''fetch failed'')])])\<rparr>"

definition badRequestJson :: response where
  "badRequestJson =
     \<lparr>status = 400, statusText = ''Bad Request'',
      body_text = ''{\"error\":{\"message\":\"No models provided\"}}'',
      json_body = Inr (JObj [(''error'', JObj [(''message'', JStr ''No models provided'')])])\<rparr>"

definition badRequestUnprintable :: response where
  "badRequestUnprintable =
     \<lparr>status = 400, statusText = ''Bad Request'',
      body_text = ''{\"error\":{\"message\":{\"toString\":1}}}'',
      json_body = Inr (JObj [(''error'', JObj [(''message'', JObj [(''toString'', JNum ''1'')])])])\<rparr>"

definition emptyTranscription :: response where
  "emptyTranscription =
     \<lparr>status = 200, statusText = ''OK'', body_text = ''{\"text\":\"\"}'',
      json_body = Inr (JObj [(''text'', JStr [])])\<rparr>"

definition memo :: upload where
  "memo = \<lparr>path = ''uploads/1730000000000-k3v9a.m4a'', originalname = ''memo.m4a''\<rparr>"

section \<open>Properties of callOpenRouter\<close>

lemma after_snd: "snd (after evs r) = snd r"
  by (simp add: after_def)

lemma after_fst: "fst (after evs r) = evs @ fst r"
  by (simp add: after_def)

lemma attempt_rateLimited:
  "rateLimited fr \<Longrightarrow>
   attempt chain fr rc mi =
     (if int mi < int (length chain) - 1 then Again 2000 0 (mi + 1)
      else if rc < maxRetries then Again (baseDelay * 2 ^ rc) (rc + 1) 0
      else Throw RateLimitExceeded)"
  by (auto simp: rateLimited_def attempt_def tryBody_def catchBlock_def
      split: fetch_result.splits sum.splits)

lemma attempt_advance:
  "rateLimited fr \<Longrightarrow> Suc mi < length chain \<Longrightarrow> attempt chain fr rc mi = Again 2000 0 (Suc mi)"
  by (auto simp: attempt_rateLimited)

lemma attempt_serverError:
  "serverError fr \<Longrightarrow> rc < maxRetries \<Longrightarrow>
   attempt chain fr rc mi = Again (baseDelay * 2 ^ rc) (rc + 1) mi"
  by (auto simp: serverError_def attempt_def tryBody_def catchBlock_def propOf_def ok_def Let_def
      split: fetch_result.splits sum.splits)

lemma attempt_succeeds:
  "succeeds fr v \<Longrightarrow> attempt chain fr rc mi = Return v"
  by (auto simp: succeeds_def completionText_def attempt_def tryBody_def propOf_def ok_def
      split: fetch_result.splits sum.splits jsval.splits list.splits)

lemma attempt_Again_index:
  "attempt chain fr rc mi = Again ms rc' mi' \<Longrightarrow> mi < length chain \<Longrightarrow> mi' < length chain"
  by (auto simp: attempt_def tryBody_def catchBlock_def Let_def
      split: fetch_result.splits sum.splits if_splits step.splits)

lemma trace_starts_with_fetch:
  "\<exists>evs. fst (callOpenRouter chain frs sp um rc mi) = Fetch (modelAt chain mi) sp um # evs"
  by (cases frs) (auto simp: after_fst split: step.splits)

lemma queried_in_chain:
  "mi < length chain \<Longrightarrow>
   set (queried (fst (callOpenRouter chain frs sp um rc mi))) \<subseteq> Some ` set chain"
proof (induction frs arbitrary: rc mi)
  case Nil
  then show ?case by (simp add: modelAt_def)
next
  case (Cons fr frs)
  show ?case
  proof (cases "attempt chain fr rc mi")
    case (Again ms rc' mi')
    with Cons.prems have "mi' < length chain"
      by (auto dest: attempt_Again_index)
    from Cons.IH [OF this] Again Cons.prems show ?thesis
      by (simp add: after_fst modelAt_def)
  qed (use Cons.prems in \<open>simp_all add: modelAt_def\<close>)
qed

lemma all_rate_limited_pending:
  "2 \<le> length chain \<Longrightarrow> list_all rateLimited frs \<Longrightarrow>
   rc < maxRetries \<or> Suc mi < length chain \<Longrightarrow>
   snd (callOpenRouter chain frs sp um rc mi) = None"
proof (induction frs arbitrary: rc mi)
  case Nil
  then show ?case by simp
next
  case (Cons fr frs)
  then show ?case
    by (auto simp: attempt_rateLimited after_snd maxRetries_def)
qed

lemma callOpenRouter_userMessages:
  "set (userMessages (fst (callOpenRouter chain frs sp um rc mi))) = {um}"
proof (induction frs arbitrary: rc mi)
  case Nil
  then show ?case by simp
next
  case (Cons fr frs)
  then show ?case
    by (cases "attempt chain fr rc mi") (simp_all add: after_fst)
qed

text \<open>
  With a single model the retry budget of the rate-limit branch is used up after three
  requests, and the call fails with \<open>RateLimitExceeded\<close>.
\<close>

lemma single_model_rate_limit:
  assumes "rateLimited a" and "rateLimited b" and "rateLimited c"
  shows "callOpenRouter [m] (a # b # c # frs) sp um 0 0 =
           ([Fetch (Some m) sp um, Sleep 3000, Fetch (Some m) sp um, Sleep 6000,
             Fetch (Some m) sp um],
            Some (Inl RateLimitExceeded))"
  using assms
  by (simp add: attempt_rateLimited maxRetries_def baseDelay_def after_def modelAt_def)

text \<open>
  \<open>callOpenRouter\<close> of \<^verbatim>\<open>server.js\<close> has returned once it holds as many responses as
  there are models from \<open>modelIndex\<close> on; a rate-limit response for the last model
  makes it throw at once, and so does every other status that is no success status.
\<close>

lemma callOpenRouter_server_returns:
  "length chain - mi \<le> length frs \<Longrightarrow> frs \<noteq> [] \<Longrightarrow>
   snd (callOpenRouter_server chain frs sp um rc mi) \<noteq> None"
proof (induction frs arbitrary: rc mi)
  case Nil
  then show ?case by simp
next
  case (Cons fr frs)
  show ?case
  proof (cases fr)
    case (Rejected m)
    then show ?thesis by simp
  next
    case (Resolved resp)
    show ?thesis
    proof (cases "status resp = 429 \<and> int mi < int (length chain) - 1")
      case True
      with Cons.prems have "length chain - (mi + 1) \<le> length frs" "frs \<noteq> []"
        by auto
      from Cons.IH [OF this] True Resolved show ?thesis
        by (simp add: after_snd)
    next
      case False
      with Resolved show ?thesis by auto
    qed
  qed
qed

lemma callOpenRouter_server_last_model:
  "status resp = 429 \<Longrightarrow> chain \<noteq> [] \<Longrightarrow>
   callOpenRouter_server chain (Resolved resp # frs) sp um rc (length chain - 1) =
     ([Fetch (Some (last chain)) sp um], Some (Inl (OpenRouterFailed 429 (body_text resp))))"
  by (cases chain rule: rev_cases) (auto simp: modelAt_def ok_def nth_append)

lemma callOpenRouter_server_error_status:
  "\<not> ok resp \<Longrightarrow> status resp \<noteq> 429 \<Longrightarrow>
   callOpenRouter_server chain (Resolved resp # frs) sp um rc mi =
     ([Fetch (modelAt chain mi) sp um],
      Some (Inl (OpenRouterFailed (status resp) (body_text resp))))"
  by simp

lemma callOpenRouter_server_userMessages:
  "set (userMessages (fst (callOpenRouter_server chain frs sp um rc mi))) = {um}"
proof (induction frs arbitrary: rc mi)
  case Nil
  then show ?case by simp
next
  case (Cons fr frs)
  then show ?case
    by (cases fr) (simp_all add: after_fst)
qed

text \<open>
  Claim C1: when every completion call returns a rate-limit response, \<open>callOpenRouter\<close>
  fails with a rate-limit-exhausted error once each model was tried and the retry budget
  is used up, and queries no model outside the chain. On a chain of two or more models
  the code does not fail: however many rate-limit responses arrive, the call has not
  returned. After the last model it calls itself with \<open>modelIndex = 0\<close> and
  \<open>retryCount + 1\<close>, and the next switch of model sets \<open>retryCount\<close> back to 0, so
  the last model is always reached with \<open>retryCount = 0\<close>. The models queried do all
  belong to the chain.
\<close>

theorem rate_limited_chain_never_fails:
  assumes "2 \<le> length chain" and "list_all rateLimited frs"
  shows "snd (callOpenRouter chain frs sp um 0 0) = None \<and>
         set (queried (fst (callOpenRouter chain frs sp um 0 0))) \<subseteq> Some ` set chain"
proof
  show "snd (callOpenRouter chain frs sp um 0 0) = None"
    using assms by (intro all_rate_limited_pending) (simp_all add: maxRetries_def)
  from assms(1) have "0 < length chain" by (cases chain) auto
  then show "set (queried (fst (callOpenRouter chain frs sp um 0 0))) \<subseteq> Some ` set chain"
    by (rule queried_in_chain)
qed

text \<open>
  The configured chain and eleven rate-limit responses.
\<close>

theorem rate_limited_chain_never_fails_witness:
  "2 \<le> length (MODEL_FALLBACKS None) \<and>
   list_all rateLimited (replicate 11 (Resolved tooManyRequests)) \<and>
   snd (callOpenRouter (MODEL_FALLBACKS None) (replicate 11 (Resolved tooManyRequests))
          ''sys'' ''hi'' 0 0) = None"
proof -
  have h1: "2 \<le> length (MODEL_FALLBACKS None)"
    by (simp add: MODEL_FALLBACKS_def)
  have h2: "list_all rateLimited (replicate 11 (Resolved tooManyRequests))"
    by (simp add: list_all_iff rateLimited_def tooManyRequests_def)
  show ?thesis
    using h1 h2 rate_limited_chain_never_fails [OF h1 h2, of "''sys''" "''hi''"] by simp
qed

text \<open>
  Claim C2: on a rate-limit response for the last model with \<open>retryCount < maxRetries\<close>
  the call waits \<open>baseDelay * 2 ^ retryCount\<close>, increments \<open>retryCount\<close> and queries the
  last model again. The code waits and increments as said, but continues with
  \<open>modelIndex = 0\<close>: the request after the wait goes to the first model of the chain.
\<close>

theorem rate_limit_retry_restarts_chain:
  assumes "rateLimited fr" and "chain \<noteq> []" and "retryCount < maxRetries"
  shows "callOpenRouter chain (fr # frs) sp um retryCount (length chain - 1) =
           after [Fetch (Some (last chain)) sp um, Sleep (baseDelay * 2 ^ retryCount)]
             (callOpenRouter chain frs sp um (retryCount + 1) 0) \<and>
         take 3 (fst (callOpenRouter chain (fr # frs) sp um retryCount (length chain - 1))) =
           [Fetch (Some (last chain)) sp um, Sleep (baseDelay * 2 ^ retryCount),
            Fetch (Some (hd chain)) sp um]"
proof -
  from assms(2) have idx: "\<not> int (length chain - 1) < int (length chain) - 1"
    by (cases chain) auto
  from assms(2) have m: "modelAt chain (length chain - 1) = Some (last chain)"
    "modelAt chain 0 = Some (hd chain)"
    by (auto simp: modelAt_def last_conv_nth hd_conv_nth)
  obtain evs where
    "fst (callOpenRouter chain frs sp um (retryCount + 1) 0) = Fetch (modelAt chain 0) sp um # evs"
    using trace_starts_with_fetch by blast
  with assms idx m show ?thesis
    by (simp add: attempt_rateLimited after_def)
qed

text \<open>
  On the configured chain the retry after a rate limit of \<open>openai/gpt-3.5-turbo\<close> goes
  to \<open>deepseek/deepseek-r1:free\<close>.
\<close>

theorem rate_limit_retry_restarts_chain_witness:
  "rateLimited (Resolved tooManyRequests) \<and> MODEL_FALLBACKS None \<noteq> [] \<and> 0 < maxRetries \<and>
   take 3 (fst (callOpenRouter (MODEL_FALLBACKS None)
                  [Resolved tooManyRequests, Resolved completionHello] ''sys'' ''hi'' 0 4)) =
     [Fetch (Some ''openai/gpt-3.5-turbo'') ''sys'' ''hi'', Sleep 3000,
      Fetch (Some ''deepseek/deepseek-r1:free'') ''sys'' ''hi'']"
proof -
  have h1: "rateLimited (Resolved tooManyRequests)"
    by (simp add: rateLimited_def tooManyRequests_def)
  have h2: "MODEL_FALLBACKS None \<noteq> []"
    by (simp add: MODEL_FALLBACKS_def)
  have h3: "0 < maxRetries"
    by (simp add: maxRetries_def)
  have e: "length (MODEL_FALLBACKS None) - 1 = 4"
    "last (MODEL_FALLBACKS None) = ''openai/gpt-3.5-turbo''"
    "hd (MODEL_FALLBACKS None) = ''deepseek/deepseek-r1:free''"
    "baseDelay * 2 ^ 0 = 3000"
    by (simp_all add: MODEL_FALLBACKS_def baseDelay_def)
  have t: "take 3 (fst (callOpenRouter (MODEL_FALLBACKS None)
                  [Resolved tooManyRequests, Resolved completionHello] ''sys'' ''hi'' 0 4)) =
     [Fetch (Some ''openai/gpt-3.5-turbo'') ''sys'' ''hi'', Sleep 3000,
      Fetch (Some ''deepseek/deepseek-r1:free'') ''sys'' ''hi'']"
    using rate_limit_retry_restarts_chain
      [OF h1 h2 h3, of "[Resolved completionHello]" "''sys''" "''hi''"]
    unfolding e by (rule conjunct2)
  show ?thesis
    using h1 h2 h3 t by (intro conjI)
qed

text \<open>
  Claim C3: for every sequence of upstream responses \<open>callOpenRouter\<close> returns after a
  bounded number of remote calls. On the configured chain this fails: there is a sequence
  of responses of which no finite prefix makes the call return.
\<close>

theorem callOpenRouter_need_not_return:
  "\<not> (\<forall>responses :: nat \<Rightarrow> fetch_result.
        \<exists>n. snd (callOpenRouter (MODEL_FALLBACKS m) (map responses [0..<n]) sp um 0 0) \<noteq> None)"
proof
  assume a: "\<forall>responses :: nat \<Rightarrow> fetch_result.
        \<exists>n. snd (callOpenRouter (MODEL_FALLBACKS m) (map responses [0..<n]) sp um 0 0) \<noteq> None"
  have r: "rateLimited (Resolved tooManyRequests)"
    by (simp add: rateLimited_def tooManyRequests_def)
  from a obtain n where
    n: "snd (callOpenRouter (MODEL_FALLBACKS m)
          (map (\<lambda>k. Resolved tooManyRequests) [0..<n]) sp um 0 0) \<noteq> None"
    by blast
  have "list_all rateLimited (map (\<lambda>k. Resolved tooManyRequests) [0..<n])"
    using r by (simp add: list_all_iff)
  moreover have "2 \<le> length (MODEL_FALLBACKS m)"
    by (simp add: MODEL_FALLBACKS_def)
  ultimately have "snd (callOpenRouter (MODEL_FALLBACKS m)
          (map (\<lambda>k. Resolved tooManyRequests) [0..<n]) sp um 0 0) = None"
    by (intro all_rate_limited_pending) (simp_all add: maxRetries_def)
  with n show False by simp
qed

text \<open>
  On a server-side error whose body reads as a JSON value other than \<open>null\<close>, with
  \<open>retryCount < maxRetries\<close>, the call waits \<open>baseDelay * 2 ^ retryCount\<close> and calls itself
  with \<open>retryCount + 1\<close> and the same \<open>modelIndex\<close>; when the retry succeeds, its completion
  text is returned after exactly two requests to that model; and when the retry is rate
  limited and a next model exists, the call goes on with that model and \<open>retryCount = 0\<close>.
\<close>

lemma server_error_retried:
  assumes "serverError fr" and "retryCount < maxRetries"
  shows "callOpenRouter chain (fr # frs) sp um retryCount modelIndex =
           after [Fetch (modelAt chain modelIndex) sp um, Sleep (baseDelay * 2 ^ retryCount)]
             (callOpenRouter chain frs sp um (retryCount + 1) modelIndex) \<and>
         (succeeds fr' v \<longrightarrow>
            callOpenRouter chain (fr # fr' # frs) sp um retryCount modelIndex =
              ([Fetch (modelAt chain modelIndex) sp um, Sleep (baseDelay * 2 ^ retryCount),
                Fetch (modelAt chain modelIndex) sp um],
               Some (Inr v))) \<and>
         (rateLimited fr'' \<and> Suc modelIndex < length chain \<longrightarrow>
            callOpenRouter chain (fr # fr'' # frs) sp um retryCount modelIndex =
              after [Fetch (modelAt chain modelIndex) sp um, Sleep (baseDelay * 2 ^ retryCount),
                     Fetch (modelAt chain modelIndex) sp um, Sleep 2000]
                (callOpenRouter chain frs sp um 0 (Suc modelIndex)))"
  using assms
  by (simp add: attempt_serverError attempt_succeeds attempt_advance after_def)

text \<open>
  A 503 with a JSON body, followed by a completion, and followed by a rate-limit response
  and a completion of the next model.
\<close>

lemma server_error_retried_example:
  "serverError (Resolved serviceUnavailable) \<and> 0 < maxRetries \<and>
   succeeds (Resolved completionHello) (JStr ''hello'') \<and>
   rateLimited (Resolved tooManyRequests) \<and> Suc 0 < length (MODEL_FALLBACKS None) \<and>
   callOpenRouter (MODEL_FALLBACKS None)
     [Resolved serviceUnavailable, Resolved completionHello, Resolved completionHello]
     ''sys'' ''hi'' 0 0 =
   ([Fetch (Some ''deepseek/deepseek-r1:free'') ''sys'' ''hi'', Sleep 3000,
     Fetch (Some ''deepseek/deepseek-r1:free'') ''sys'' ''hi''],
    Some (Inr (JStr ''hello''))) \<and>
   callOpenRouter (MODEL_FALLBACKS None)
     [Resolved serviceUnavailable, Resolved tooManyRequests, Resolved completionHello]
     ''sys'' ''hi'' 0 0 =
   ([Fetch (Some ''deepseek/deepseek-r1:free'') ''sys'' ''hi'', Sleep 3000,
     Fetch (Some ''deepseek/deepseek-r1:free'') ''sys'' ''hi'', Sleep 2000,
     Fetch (Some ''google/gemini-2.0-flash-exp:free'') ''sys'' ''hi''],
    Some (Inr (JStr ''hello'')))"
proof -
  have h1: "serverError (Resolved serviceUnavailable)"
    by (simp add: serverError_def serviceUnavailable_def)
  have h2: "0 < maxRetries"
    by (simp add: maxRetries_def)
  have h3: "succeeds (Resolved completionHello) (JStr ''hello'')"
    by (simp add: succeeds_def completionHello_def completionText_def ok_def lookup_def)
  have h4: "rateLimited (Resolved tooManyRequests)"
    by (simp add: rateLimited_def tooManyRequests_def)
  have h5: "Suc 0 < length (MODEL_FALLBACKS None)"
    by (simp add: MODEL_FALLBACKS_def)
  have e: "modelAt (MODEL_FALLBACKS None) 0 = Some ''deepseek/deepseek-r1:free''"
    "modelAt (MODEL_FALLBACKS None) (Suc 0) = Some ''google/gemini-2.0-flash-exp:free''"
    "baseDelay * 2 ^ 0 = 3000"
    by (simp_all add: MODEL_FALLBACKS_def modelAt_def baseDelay_def)
  have next_model: "callOpenRouter (MODEL_FALLBACKS None) [Resolved completionHello]
      ''sys'' ''hi'' 0 (Suc 0) =
      ([Fetch (Some ''google/gemini-2.0-flash-exp:free'') ''sys'' ''hi''],
       Some (Inr (JStr ''hello'')))"
    using h3 by (simp add: attempt_succeeds e)
  note t = server_error_retried [OF h1 h2, of "MODEL_FALLBACKS None" "[Resolved completionHello]"
      "''sys''" "''hi''" 0 "Resolved completionHello" "JStr ''hello''" "Resolved tooManyRequests"]
  from t h3 have a: "callOpenRouter (MODEL_FALLBACKS None)
     [Resolved serviceUnavailable, Resolved completionHello, Resolved completionHello]
     ''sys'' ''hi'' 0 0 =
   ([Fetch (Some ''deepseek/deepseek-r1:free'') ''sys'' ''hi'', Sleep 3000,
     Fetch (Some ''deepseek/deepseek-r1:free'') ''sys'' ''hi''],
    Some (Inr (JStr ''hello'')))"
    unfolding e by blast
  from t h4 h5 have "callOpenRouter (MODEL_FALLBACKS None)
     [Resolved serviceUnavailable, Resolved tooManyRequests, Resolved completionHello]
     ''sys'' ''hi'' 0 0 =
     after [Fetch (Some ''deepseek/deepseek-r1:free'') ''sys'' ''hi'', Sleep 3000,
            Fetch (Some ''deepseek/deepseek-r1:free'') ''sys'' ''hi'', Sleep 2000]
       (callOpenRouter (MODEL_FALLBACKS None) [Resolved completionHello] ''sys'' ''hi'' 0 (Suc 0))"
    unfolding e by blast
  then have b: "callOpenRouter (MODEL_FALLBACKS None)
     [Resolved serviceUnavailable, Resolved tooManyRequests, Resolved completionHello]
     ''sys'' ''hi'' 0 0 =
   ([Fetch (Some ''deepseek/deepseek-r1:free'') ''sys'' ''hi'', Sleep 3000,
     Fetch (Some ''deepseek/deepseek-r1:free'') ''sys'' ''hi'', Sleep 2000,
     Fetch (Some ''google/gemini-2.0-flash-exp:free'') ''sys'' ''hi''],
    Some (Inr (JStr ''hello'')))"
    unfolding next_model by (simp add: after_def)
  from h1 h2 h3 h4 h5 a b show ?thesis by (intro conjI)
qed

text \<open>
  Claim C4: on a server-side error with \<open>retryCount < maxRetries\<close> the call retries with
  exponential backoff at the same \<open>modelIndex\<close>. The code misses this for a 502 whose body
  is an HTML page: it is not retried, although \<open>retryCount = 0\<close> and a completion stands
  ready. \<open>response.json()\<close> is awaited before the status is looked at, and its
  \<open>SyntaxError\<close> is thrown on by the \<open>catch\<close> block; the one request is all the trace
  holds.
\<close>

theorem error_page_not_retried:
  "callOpenRouter (MODEL_FALLBACKS None) [Resolved badGatewayPage, Resolved completionHello]
     ''sys'' ''hi'' 0 0 =
   ([Fetch (Some ''deepseek/deepseek-r1:free'') ''sys'' ''hi''],
    Some (Inl (RuntimeError ''Unexpected token < in JSON at position 0'')))"
  by (simp add: MODEL_FALLBACKS_def badGatewayPage_def attempt_def tryBody_def catchBlock_def
      modelAt_def)

text \<open>
  On a status below 500 that is neither 429 nor a success status, with a body that reads
  as a JSON value other than \<open>null\<close> and an error message that can be printed and does
  not contain \<open>fetch failed\<close>, the call throws the error
  \<open>OpenRouter API error: status - message\<close> and the trace holds the one request.
\<close>

lemma client_error_fails_at_once:
  assumes "status resp \<noteq> 429" and "\<not> ok resp" and "status resp < 500"
    and "json_body resp = Inr data" and "\<not> nullish data"
    and "toString (errorMessageOf data resp) = Inr shown"
    and "\<not> str_includes (message (OpenRouterAPIError (status resp) shown)) ''fetch failed''"
  shows "callOpenRouter chain (Resolved resp # frs) sp um retryCount modelIndex =
           ([Fetch (modelAt chain modelIndex) sp um],
            Some (Inl (OpenRouterAPIError (status resp) shown)))"
  using assms
  by (simp add: attempt_def tryBody_def catchBlock_def propOf_def errorMessageOf_def Let_def)

text \<open>
  A 400 with the message \<open>No models provided\<close>.
\<close>

lemma client_error_fails_at_once_example:
  "callOpenRouter (MODEL_FALLBACKS None) [Resolved badRequestJson, Resolved completionHello]
     ''sys'' ''hi'' 0 0 =
     ([Fetch (Some ''deepseek/deepseek-r1:free'') ''sys'' ''hi''],
      Some (Inl (OpenRouterAPIError 400 ''No models provided'')))"
proof -
  let ?d = "JObj [(''error'', JObj [(''message'', JStr ''No models provided'')])]"
  have h1: "status badRequestJson \<noteq> 429"
    and h2: "\<not> ok badRequestJson"
    and h3: "status badRequestJson < 500"
    and h4: "json_body badRequestJson = Inr ?d"
    by (simp_all add: badRequestJson_def ok_def)
  have h5: "\<not> nullish ?d"
    by simp
  have e: "status badRequestJson = 400"
    "modelAt (MODEL_FALLBACKS None) 0 = Some ''deepseek/deepseek-r1:free''"
    by (simp_all add: badRequestJson_def MODEL_FALLBACKS_def modelAt_def)
  have h6: "toString (errorMessageOf ?d badRequestJson) = Inr ''No models provided''"
    by (simp add: errorMessageOf_def optProp_def lookup_def)
  have m: "message (OpenRouterAPIError 400 ''No models provided'') =
      ''OpenRouter API error: 400 - No models provided''"
    by (simp add: decimal.simps)
  have "\<not> str_includes ''OpenRouter API error: 400 - No models provided'' ''fetch failed''"
    by simp
  then have h7: "\<not> str_includes
      (message (OpenRouterAPIError (status badRequestJson) ''No models provided''))
      ''fetch failed''"
    unfolding e m .
  show ?thesis
    using client_error_fails_at_once
      [OF h1 h2 h3 h4 h5 h6 h7, of "MODEL_FALLBACKS None" "[Resolved completionHello]"
        "''sys''" "''hi''" 0 0]
    unfolding e .
qed

text \<open>
  An error message that is an object with a key \<open>toString\<close> cannot be printed: the
  template literal throws a \<open>TypeError\<close>, which the \<open>catch\<close> block throws on.
\<close>

lemma client_error_unprintable_message:
  "callOpenRouter (MODEL_FALLBACKS None) [Resolved badRequestUnprintable] ''sys'' ''hi'' 0 0 =
     ([Fetch (Some ''deepseek/deepseek-r1:free'') ''sys'' ''hi''],
      Some (Inl (RuntimeError ''Cannot convert object to primitive value'')))"
  by (simp add: MODEL_FALLBACKS_def badRequestUnprintable_def attempt_def tryBody_def
      catchBlock_def modelAt_def propOf_def optProp_def ok_def lookup_def)

text \<open>
  Claim C5: on a status that is neither a success status, 429 nor 5xx the call fails at
  once with the upstream API error that carries the status and the message, and makes no
  further remote call. The code misses this on two inputs. A 400 whose body is no JSON
  text ends in the \<open>SyntaxError\<close> of \<open>response.json()\<close>, which is awaited before the
  status is looked at, not in the upstream API error. A 400 whose message contains
  \<open>fetch failed\<close> is taken for a network failure by the \<open>catch\<close> block and retried: a
  second request is sent, and its completion is returned.
\<close>

theorem client_error_other_outcomes:
  "callOpenRouter (MODEL_FALLBACKS None) [Resolved badRequestPlain] ''sys'' ''hi'' 0 0 =
     ([Fetch (Some ''deepseek/deepseek-r1:free'') ''sys'' ''hi''],
      Some (Inl (RuntimeError ''Unexpected token B in JSON at position 0''))) \<and>
   callOpenRouter (MODEL_FALLBACKS None) [Resolved badRequestFetchFailed, Resolved completionHello]
     ''sys'' ''hi'' 0 0 =
     ([Fetch (Some ''deepseek/deepseek-r1:free'') ''sys'' ''hi'', Sleep 3000,
       Fetch (Some ''deepseek/deepseek-r1:free'') ''sys'' ''hi''],
      Some (Inr (JStr ''hello'')))"
  by (simp add: MODEL_FALLBACKS_def badRequestPlain_def badRequestFetchFailed_def
      completionHello_def attempt_def tryBody_def catchBlock_def modelAt_def propOf_def
      optProp_def ok_def lookup_def decimal.simps maxRetries_def baseDelay_def after_def)

text \<open>
  Claim C6: a success response without the text field \<open>choices[0].message.content\<close>
  fails with a malformed-response error. The code checks \<open>choices\<close>, \<open>choices[0]\<close> and
  \<open>choices[0].message\<close> only: when the message has no \<open>content\<close> the call returns
  \<open>undefined\<close>.
\<close>

theorem missing_content_returns_undefined:
  "callOpenRouter (MODEL_FALLBACKS None) [Resolved completionNoContent] ''sys'' ''hi'' 0 0 =
     ([Fetch (Some ''deepseek/deepseek-r1:free'') ''sys'' ''hi''], Some (Inr JUndefined))"
  by (simp add: MODEL_FALLBACKS_def completionNoContent_def attempt_def tryBody_def
      modelAt_def propOf_def ok_def lookup_def)

text \<open>
  The checks the code does make: a success response without \<open>choices\<close>,
  \<open>choices[0]\<close> or \<open>choices[0].message\<close> is a malformed response.
\<close>

lemma missing_message_is_invalid:
  assumes "ok resp" and "json_body resp = Inr data" and "\<not> nullish data"
    and "\<not> truthy (member data ''choices'') \<or>
         \<not> truthy (index0 (member data ''choices'')) \<or>
         \<not> truthy (member (index0 (member data ''choices'')) ''message'')"
  shows "callOpenRouter chain (Resolved resp # frs) sp um rc mi =
           ([Fetch (modelAt chain mi) sp um], Some (Inl InvalidResponseStructure))"
proof -
  from assms(1) have "status resp \<noteq> 429"
    by (simp add: ok_def)
  moreover have "\<not> str_includes (message InvalidResponseStructure) ''fetch failed''"
    by simp
  ultimately have "attempt chain (Resolved resp) rc mi = Throw InvalidResponseStructure"
    using assms by (auto simp: attempt_def tryBody_def catchBlock_def propOf_def)
  then show ?thesis by simp
qed

section \<open>Properties of the sentiment extraction\<close>

lemma matchLit_Some:
  "matchLit p s = Some r \<longleftrightarrow>
     (\<exists>t. s = t @ r \<and> map toUpperCase t = map toUpperCase p)"
proof (induction p s rule: matchLit.induct)
  case (1 s)
  then show ?case by auto
next
  case (2 p ps)
  then show ?case by auto
next
  case (3 p ps c cs)
  show ?case
  proof
    assume "matchLit (p # ps) (c # cs) = Some r"
    then have c: "toUpperCase c = toUpperCase p" and m: "matchLit ps cs = Some r"
      by (auto split: if_splits)
    from m 3 c obtain t where "cs = t @ r" "map toUpperCase t = map toUpperCase ps"
      by auto
    with c have "c # cs = (c # t) @ r \<and> map toUpperCase (c # t) = map toUpperCase (p # ps)"
      by simp
    then show "\<exists>t. c # cs = t @ r \<and> map toUpperCase t = map toUpperCase (p # ps)"
      by blast
  next
    assume "\<exists>t. c # cs = t @ r \<and> map toUpperCase t = map toUpperCase (p # ps)"
    then obtain t where t: "c # cs = t @ r" "map toUpperCase t = map toUpperCase (p # ps)"
      by blast
    then obtain t' where t': "t = c # t'" "cs = t' @ r"
      "toUpperCase c = toUpperCase p" "map toUpperCase t' = map toUpperCase ps"
      by (cases t) auto
    with 3 show "matchLit (p # ps) (c # cs) = Some r"
      by auto
  qed
qed

lemma matchLit_drop: "matchLit p s = Some r \<Longrightarrow> r = drop (length p) s"
  by (induction p s rule: matchLit.induct) (auto split: if_splits)

lemma firstMatch_None:
  "firstMatch re s = None \<longleftrightarrow> (\<forall>pre post. s = pre @ post \<longrightarrow> re post = None)"
proof (induction s)
  case Nil
  then show ?case by (auto split: option.splits)
next
  case (Cons c cs)
  show ?case
  proof
    assume a: "firstMatch re (c # cs) = None"
    then have h: "re (c # cs) = None" and t: "firstMatch re cs = None"
      by (auto split: option.splits)
    show "\<forall>pre post. c # cs = pre @ post \<longrightarrow> re post = None"
    proof (intro allI impI)
      fix pre post
      assume e: "c # cs = pre @ post"
      show "re post = None"
      proof (cases pre)
        case Nil
        with e h show ?thesis by simp
      next
        case (Cons x xs)
        with e have "cs = xs @ post" by simp
        with t Cons.IH show ?thesis by blast
      qed
    qed
  next
    assume a: "\<forall>pre post. c # cs = pre @ post \<longrightarrow> re post = None"
    then have h: "re (c # cs) = None"
      by (metis append_Nil)
    have "\<forall>pre post. cs = pre @ post \<longrightarrow> re post = None"
      using a by (metis append_Cons)
    with Cons.IH have "firstMatch re cs = None" by blast
    with h show "firstMatch re (c # cs) = None" by simp
  qed
qed

lemma firstMatch_Some_pre:
  "firstMatch re s = Some (pre, g, r) \<Longrightarrow> \<exists>post. s = pre @ post \<and> re post = Some (g, r)"
proof (induction s arbitrary: pre)
  case Nil
  then show ?case by (auto split: option.splits)
next
  case (Cons c cs)
  then show ?case by (fastforce split: option.splits)
qed

lemma toUpperCase_cases:
  "toUpperCase c = c \<or>
   (c, toUpperCase c) \<in> set (zip ''abcdefghijklmnopqrstuvwxyz'' ''ABCDEFGHIJKLMNOPQRSTUVWXYZ'')"
proof (cases "map_of (zip ''abcdefghijklmnopqrstuvwxyz'' ''ABCDEFGHIJKLMNOPQRSTUVWXYZ'') c")
  case None
  then have "toUpperCase c = c"
    unfolding toUpperCase_def by (simp only: option.case)
  then show ?thesis ..
next
  case (Some u)
  then have "toUpperCase c = u"
    unfolding toUpperCase_def by (simp only: option.case)
  with Some show ?thesis
    by (metis map_of_SomeD)
qed

lemma toUpperCase_bracket: "toUpperCase c = CHR '']'' \<Longrightarrow> c = CHR '']''"
  using toUpperCase_cases [of c] by auto

lemma letter_not_space:
  "toUpperCase c = CHR ''P'' \<or> toUpperCase c = CHR ''N'' \<Longrightarrow> \<not> isSpace c"
  using toUpperCase_cases [of c] by (auto simp: isSpace_def)

lemma word_starts_with_letter:
  assumes "map toUpperCase w = ''POSITIVE'' \<or> map toUpperCase w = ''NEGATIVE''"
  shows "dropWhile isSpace (ws @ w @ rest) = dropWhile isSpace ws @ w @ rest \<and> length w = 8"
proof -
  from assms obtain c cs where w: "w = c # cs" and
    c: "toUpperCase c = CHR ''P'' \<or> toUpperCase c = CHR ''N''"
    by (cases w) auto
  from c have "\<not> isSpace c"
    by (rule letter_not_space)
  moreover from assms have "length (map toUpperCase w) = 8" by auto
  ultimately show ?thesis
    using w by (simp add: dropWhile_append)
qed

lemma upper_literals:
  "map toUpperCase ''[SENTIMENT:'' = ''[SENTIMENT:''"
  "map toUpperCase ''positive'' = ''POSITIVE''"
  "map toUpperCase ''negative'' = ''NEGATIVE''"
  "map toUpperCase '']'' = '']''"
  by (simp_all add: toUpperCase_def)

lemma lit_tag:
  "matchLit ''[SENTIMENT:'' s = Some r \<longleftrightarrow>
     (\<exists>t. s = t @ r \<and> map toUpperCase t = ''[SENTIMENT:'')"
  by (simp only: matchLit_Some upper_literals)

lemma lit_positive:
  "matchLit ''positive'' s = Some r \<longleftrightarrow> (\<exists>t. s = t @ r \<and> map toUpperCase t = ''POSITIVE'')"
  by (simp only: matchLit_Some upper_literals)

lemma lit_negative:
  "matchLit ''negative'' s = Some r \<longleftrightarrow> (\<exists>t. s = t @ r \<and> map toUpperCase t = ''NEGATIVE'')"
  by (simp only: matchLit_Some upper_literals)

lemma lit_bracket: "matchLit '']'' s = Some r \<longleftrightarrow> s = CHR '']'' # r"
proof -
  have "matchLit '']'' s = Some r \<longleftrightarrow> (\<exists>t. s = t @ r \<and> map toUpperCase t = '']'')"
    by (simp only: matchLit_Some upper_literals)
  also have "\<dots> \<longleftrightarrow> s = CHR '']'' # r"
  proof
    assume "\<exists>t. s = t @ r \<and> map toUpperCase t = '']''"
    then obtain t where t: "s = t @ r" "map toUpperCase t = '']''"
      by (elim exE conjE)
    from t(2) obtain c where "t = [c]" "toUpperCase c = CHR '']''"
      by (cases t) simp_all
    with t(1) show "s = CHR '']'' # r"
      by (simp add: toUpperCase_bracket)
  next
    assume "s = CHR '']'' # r"
    then have "s = '']'' @ r \<and> map toUpperCase '']'' = '']''"
      using upper_literals(4) by simp
    then show "\<exists>t. s = t @ r \<and> map toUpperCase t = '']''"
      by (rule exI)
  qed
  finally show ?thesis .
qed

lemma sentimentWord_length: "sentimentWord g \<Longrightarrow> length g = 8"
proof -
  assume "sentimentWord g"
  then have "length (map toUpperCase g) = 8"
    unfolding sentimentWord_def by (elim disjE) simp_all
  then show ?thesis by simp
qed

lemma alt_Some:
  "(case matchLit ''positive'' s of Some r3 \<Rightarrow> Some r3 | None \<Rightarrow> matchLit ''negative'' s) = Some r
   \<longleftrightarrow> (\<exists>g. s = g @ r \<and> sentimentWord g)"
proof
  assume "(case matchLit ''positive'' s of Some r3 \<Rightarrow> Some r3 | None \<Rightarrow> matchLit ''negative'' s)
    = Some r"
  then have "matchLit ''positive'' s = Some r \<or> matchLit ''negative'' s = Some r"
    by (simp split: option.splits)
  then show "\<exists>g. s = g @ r \<and> sentimentWord g"
    unfolding lit_positive lit_negative sentimentWord_def by (elim disjE exE conjE) auto
next
  assume "\<exists>g. s = g @ r \<and> sentimentWord g"
  then obtain g where g: "s = g @ r" "sentimentWord g"
    by (elim exE conjE)
  then have d: "matchLit ''positive'' s = Some r \<or> matchLit ''negative'' s = Some r"
    unfolding lit_positive lit_negative sentimentWord_def by (elim disjE) auto
  have "x = r" if "matchLit ''positive'' s = Some x" for x
    using that g sentimentWord_length [OF g(2)] by (auto dest: matchLit_drop)
  with d show "(case matchLit ''positive'' s of Some r3 \<Rightarrow> Some r3
      | None \<Rightarrow> matchLit ''negative'' s) = Some r"
    by (cases "matchLit ''positive'' s") auto
qed

lemma sentimentAt_Some:
  "sentimentAt s = Some (g, r) \<longleftrightarrow>
     (\<exists>t ws. s = t @ ws @ g @ '']'' @ r \<and> map toUpperCase t = ''[SENTIMENT:'' \<and>
        list_all isSpace ws \<and> sentimentWord g)"
proof
  assume a: "sentimentAt s = Some (g, r)"
  then obtain r1 where r1: "matchLit ''[SENTIMENT:'' s = Some r1"
    unfolding sentimentAt_def by (cases "matchLit ''[SENTIMENT:'' s") simp_all
  define r2 where "r2 = dropWhile isSpace r1"
  define alt where "alt = (case matchLit ''positive'' r2 of Some r3 \<Rightarrow> Some r3
    | None \<Rightarrow> matchLit ''negative'' r2)"
  from a r1 have b: "(case alt of None \<Rightarrow> None
      | Some r3 \<Rightarrow> (case matchLit '']'' r3 of None \<Rightarrow> None | Some r4 \<Rightarrow> Some (take 8 r2, r4)))
      = Some (g, r)"
    unfolding sentimentAt_def alt_def r2_def by (simp add: Let_def)
  then obtain r3 where r3: "alt = Some r3"
    by (cases alt) simp_all
  with b have br: "matchLit '']'' r3 = Some r" and g: "g = take 8 r2"
    by (cases "matchLit '']'' r3"; simp)+
  from r1 obtain t where t: "s = t @ r1" "map toUpperCase t = ''[SENTIMENT:''"
    unfolding lit_tag by (elim exE conjE)
  from r3 obtain w where w: "r2 = w @ r3" "sentimentWord w"
    unfolding alt_def alt_Some by (elim exE conjE)
  from w g sentimentWord_length [OF w(2)] have gw: "g = w" by simp
  from br have r3': "r3 = '']'' @ r"
    unfolding lit_bracket by simp
  have "r1 = takeWhile isSpace r1 @ r2"
    by (simp add: r2_def)
  with t w r3' gw have "s = t @ takeWhile isSpace r1 @ g @ '']'' @ r"
    by simp
  moreover have "list_all isSpace (takeWhile isSpace r1)"
    by (auto simp: list_all_iff dest: set_takeWhileD)
  ultimately have "s = t @ takeWhile isSpace r1 @ g @ '']'' @ r \<and>
      map toUpperCase t = ''[SENTIMENT:'' \<and> list_all isSpace (takeWhile isSpace r1) \<and>
      sentimentWord g"
    using t(2) w(2) gw by simp
  then show "\<exists>t ws. s = t @ ws @ g @ '']'' @ r \<and> map toUpperCase t = ''[SENTIMENT:'' \<and>
        list_all isSpace ws \<and> sentimentWord g"
    by (intro exI)
next
  assume "\<exists>t ws. s = t @ ws @ g @ '']'' @ r \<and> map toUpperCase t = ''[SENTIMENT:'' \<and>
        list_all isSpace ws \<and> sentimentWord g"
  then obtain t ws where s: "s = t @ ws @ g @ '']'' @ r" and
    t: "map toUpperCase t = ''[SENTIMENT:''" and ws: "list_all isSpace ws" and
    g: "sentimentWord g"
    by (elim exE conjE)
  define rest where "rest = CHR '']'' # r"
  from s have s': "s = t @ ws @ g @ rest"
    by (simp add: rest_def)
  from s' t have "\<exists>t. s = t @ (ws @ g @ rest) \<and> map toUpperCase t = ''[SENTIMENT:''"
    by (intro exI [of _ t]) simp
  then have r1: "matchLit ''[SENTIMENT:'' s = Some (ws @ g @ rest)"
    unfolding lit_tag .
  from ws have "dropWhile isSpace ws = []"
    by (simp add: list_all_iff)
  with word_starts_with_letter [of g ws rest] g
  have r2: "dropWhile isSpace (ws @ g @ rest) = g @ rest" and len: "length g = 8"
    unfolding sentimentWord_def by simp_all
  from g have "\<exists>w. g @ rest = w @ rest \<and> sentimentWord w"
    by (intro exI [of _ g]) simp
  then have alt: "(case matchLit ''positive'' (g @ rest) of
       Some r3 \<Rightarrow> Some r3 | None \<Rightarrow> matchLit ''negative'' (g @ rest)) = Some rest"
    unfolding alt_Some .
  have br: "matchLit '']'' rest = Some r"
    unfolding lit_bracket by (simp add: rest_def)
  show "sentimentAt s = Some (g, r)"
    unfolding sentimentAt_def r1 Let_def option.case r2 alt br using len by simp
qed

text \<open>
  The search of the route finds a match exactly in the texts that contain a tag.
\<close>

lemma hasSentimentTag_iff: "hasSentimentTag s \<longleftrightarrow> firstMatch sentimentAt s \<noteq> None"
proof
  assume "hasSentimentTag s"
  then obtain pre t ws w post where
    "s = pre @ t @ ws @ w @ '']'' @ post" "map toUpperCase t = ''[SENTIMENT:''"
    "list_all isSpace ws"
    "sentimentWord w"
    unfolding hasSentimentTag_def by (elim exE conjE)
  then have "s = pre @ (t @ ws @ w @ '']'' @ post)" and
      "sentimentAt (t @ ws @ w @ '']'' @ post) = Some (w, post)"
    unfolding sentimentAt_Some by (simp, intro exI conjI) auto
  then show "firstMatch sentimentAt s \<noteq> None"
    unfolding firstMatch_None by (metis option.distinct(1))
next
  assume "firstMatch sentimentAt s \<noteq> None"
  then obtain pre g r where "firstMatch sentimentAt s = Some (pre, g, r)"
    by auto
  then obtain post where "s = pre @ post" "sentimentAt post = Some (g, r)"
    by (auto dest: firstMatch_Some_pre)
  then show "hasSentimentTag s"
    unfolding sentimentAt_Some hasSentimentTag_def by (elim exE conjE, intro exI conjI) auto
qed

lemma firstMatch_space_None:
  "firstMatch sentimentSpaceAt s = None \<longleftrightarrow> firstMatch sentimentAt s = None"
proof -
  have "sentimentSpaceAt post = None \<longleftrightarrow> sentimentAt post = None" for post
    by (simp add: sentimentSpaceAt_def split: option.splits)
  then show ?thesis
    unfolding firstMatch_None by simp
qed

text \<open>
  Claim C7, as amended: for \<open>[SENTIMENT: negative]\<close>, a line feed and \<open>Text\<close> the nature
  is \<open>negative\<close> and the body is \<open>Text\<close>; for a text that contains no tag the nature is
  \<open>positive\<close> and the body is the text without its leading and trailing white space.
\<close>

theorem sentiment_extraction:
  "extractNature ''[SENTIMENT: negative]\<newline>Text'' = ''negative'' \<and>
   cleanedAnalysis ''[SENTIMENT: negative]\<newline>Text'' = ''Text'' \<and>
   (\<not> hasSentimentTag s \<longrightarrow> extractNature s = ''positive'' \<and> cleanedAnalysis s = trim s)"
proof (intro conjI impI)
  show "extractNature ''[SENTIMENT: negative]\<newline>Text'' = ''negative''"
    by (simp add: extractNature_def sentimentAt_def toUpperCase_def toLowerCase_def isSpace_def)
  show "cleanedAnalysis ''[SENTIMENT: negative]\<newline>Text'' = ''Text''"
    by (simp add: cleanedAnalysis_def sentimentSpaceAt_def sentimentAt_def toUpperCase_def
        isSpace_def trim_def)
next
  assume "\<not> hasSentimentTag s"
  then have n: "firstMatch sentimentAt s = None"
    unfolding hasSentimentTag_iff by blast
  then show "extractNature s = ''positive''"
    by (simp add: extractNature_def)
  from n have "firstMatch sentimentSpaceAt s = None"
    by (simp add: firstMatch_space_None)
  then show "cleanedAnalysis s = trim s"
    by (simp add: cleanedAnalysis_def)
qed

text \<open>
  A text without a tag.
\<close>

theorem sentiment_extraction_witness:
  "\<not> hasSentimentTag '' I hear you. '' \<and> extractNature '' I hear you. '' = ''positive'' \<and>
   cleanedAnalysis '' I hear you. '' = ''I hear you.''"
proof -
  have h: "\<not> hasSentimentTag '' I hear you. ''"
    by (simp add: hasSentimentTag_iff sentimentAt_def toUpperCase_def)
  have t: "trim '' I hear you. '' = ''I hear you.''"
    by (simp add: trim_def isSpace_def)
  from sentiment_extraction [of "'' I hear you. ''"] h t show ?thesis
    by simp
qed

text \<open>
  Claim C7 as stated fails: the body of a text without a tag is not returned unchanged
  when the text starts or ends with white space.
\<close>

theorem untagged_text_is_trimmed:
  "\<not> hasSentimentTag '' I hear you. '' \<and> cleanedAnalysis '' I hear you. '' \<noteq> '' I hear you. ''"
proof -
  have h: "\<not> hasSentimentTag '' I hear you. ''"
    by (simp add: hasSentimentTag_iff sentimentAt_def toUpperCase_def)
  have "firstMatch sentimentSpaceAt '' I hear you. '' = None"
    by (simp add: sentimentSpaceAt_def sentimentAt_def toUpperCase_def)
  then have "cleanedAnalysis '' I hear you. '' = ''I hear you.''"
    by (simp add: cleanedAnalysis_def trim_def isSpace_def)
  with h show ?thesis by simp
qed

section \<open>Properties of the routes\<close>

lemma trim_empty: "trim s = [] \<longleftrightarrow> list_all isSpace s"
proof -
  define d where "d = dropWhile isSpace s"
  have "dropWhile isSpace (rev d) = [] \<longleftrightarrow> d = []"
  proof (cases d)
    case Nil
    then show ?thesis by simp
  next
    case (Cons c cs)
    then have "\<not> isSpace c"
      using hd_dropWhile [of isSpace s] by (auto simp: d_def)
    with Cons show ?thesis
      by (auto simp: dropWhile_append)
  qed
  then have "trim s = [] \<longleftrightarrow> dropWhile isSpace s = []"
    by (simp add: trim_def d_def del: dropWhile_eq_Nil_conv)
  also have "\<dots> \<longleftrightarrow> list_all isSpace s"
    by (simp add: dropWhile_eq_Nil_conv list_all_iff)
  finally show ?thesis .
qed

text \<open>
  A request whose entry is missing, not a string, empty or white space only makes no
  remote call, in both servers; and when \<open>req.body\<close> is neither \<open>null\<close> nor
  \<open>undefined\<close> it is answered with status 400 and the error \<open>Invalid input\<close>.
\<close>

lemma invalid_entry_rejected:
  assumes "invalidEntry (member body ''entry'')"
  shows "fst (analyze chain frs now body) = [] \<and> fst (analyze_server chain frs body) = [] \<and>
         (\<not> nullish body \<longrightarrow>
            (\<exists>m. snd (analyze chain frs now body) =
                    Some (400, JObj [(''error'', JStr ''Invalid input''), (''message'', JStr m)])) \<and>
            (\<exists>m. snd (analyze_server chain frs body) =
                    Some (400, JObj [(''error'', JStr ''Invalid input''), (''message'', JStr m)])))"
proof (cases "nullish body")
  case True
  then show ?thesis
    by (simp add: analyze_def analyze_server_def destructure_def)
next
  case False
  show ?thesis
  proof (cases "member body ''entry''")
    case (JStr s)
    with assms have "trim s = []"
      by (auto simp: invalidEntry_def trim_empty)
    with JStr False show ?thesis
      by (simp add: analyze_def analyze_server_def destructure_def strOf_def)
  qed (use False in \<open>simp_all add: analyze_def analyze_server_def destructure_def\<close>)
qed

text \<open>
  An entry of two spaces, in a request body that is an object.
\<close>

lemma invalid_entry_rejected_example:
  "invalidEntry (member (JObj [(''entry'', JStr ''  '')]) ''entry'') \<and>
   \<not> nullish (JObj [(''entry'', JStr ''  '')]) \<and>
   analyze (MODEL_FALLBACKS None) [Resolved completionHello] ''2025-01-01T00:00:00.000Z''
     (JObj [(''entry'', JStr ''  '')]) =
   ([], Some (400, JObj [(''error'', JStr ''Invalid input''),
                         (''message'', JStr ''Journal entry cannot be empty'')])) \<and>
   analyze_server (MODEL_FALLBACKS None) [Resolved completionHello]
     (JObj [(''entry'', JStr ''  '')]) =
   ([], Some (400, JObj [(''error'', JStr ''Invalid input''),
                         (''message'', JStr ''Provide a valid entry string.'')]))"
proof -
  let ?b = "JObj [(''entry'', JStr ''  '')]"
  have h: "invalidEntry (member ?b ''entry'')"
    by (simp add: invalidEntry_def lookup_def isSpace_def)
  have n: "\<not> nullish ?b"
    by simp
  note t = invalid_entry_rejected [OF h, of "MODEL_FALLBACKS None" "[Resolved completionHello]"
      "''2025-01-01T00:00:00.000Z''"]
  from t n obtain m m' where
    f: "fst (analyze (MODEL_FALLBACKS None) [Resolved completionHello]
          ''2025-01-01T00:00:00.000Z'' ?b) = []"
      "fst (analyze_server (MODEL_FALLBACKS None) [Resolved completionHello] ?b) = []" and
    r: "snd (analyze (MODEL_FALLBACKS None) [Resolved completionHello]
          ''2025-01-01T00:00:00.000Z'' ?b) =
        Some (400, JObj [(''error'', JStr ''Invalid input''), (''message'', JStr m)])"
      "snd (analyze_server (MODEL_FALLBACKS None) [Resolved completionHello] ?b) =
        Some (400, JObj [(''error'', JStr ''Invalid input''), (''message'', JStr m')])"
    by blast
  have "snd (analyze (MODEL_FALLBACKS None) [Resolved completionHello]
          ''2025-01-01T00:00:00.000Z'' ?b) =
        Some (400, JObj [(''error'', JStr ''Invalid input''),
                         (''message'', JStr ''Journal entry cannot be empty'')])"
    by (simp add: analyze_def destructure_def lookup_def strOf_def trim_def isSpace_def)
  with r(1) have m: "m = ''Journal entry cannot be empty''"
    by simp
  have "snd (analyze_server (MODEL_FALLBACKS None) [Resolved completionHello] ?b) =
        Some (400, JObj [(''error'', JStr ''Invalid input''),
                         (''message'', JStr ''Provide a valid entry string.'')])"
    by (simp add: analyze_server_def destructure_def lookup_def strOf_def trim_def isSpace_def)
  with r(2) have m': "m' = ''Provide a valid entry string.''"
    by simp
  from f r show ?thesis
    unfolding m m' using h n by (simp add: prod_eq_iff)
qed

text \<open>
  Claim C8: every request whose entry is missing, not a string, empty or white space only
  is rejected with a 400-class invalid-input error, and no remote call is made. The code
  misses the request that has no body: where the JSON middleware leaves \<open>req.body\<close>
  undefined, the destructuring \<open>const { entry } = req.body\<close> throws before the entry is
  looked at, and the \<open>catch\<close> block of the route answers with status 500, in both
  servers. No remote call is made.
\<close>

theorem missing_body_answers_500:
  "analyze chain frs now JUndefined =
     ([], Some (500, JObj [(''error'', JStr ''Internal server error''),
                           (''message'',
                            JStr ''An unexpected error occurred while analyzing your entry'')])) \<and>
   analyze_server chain frs JUndefined =
     ([], Some (500, JObj [(''error'', JStr ''Internal error''),
                           (''message'',
                            JStr (''Cannot destructure property '' @ [CHR 0x27] @ ''entry'' @
                              [CHR 0x27] @ '' of '' @ [CHR 0x27] @ ''req.body'' @ [CHR 0x27] @
                              '' as it is undefined.''))]))"
  by (simp add: analyze_def analyze_server_def destructure_def analyzeCatch_def nullName_def)

text \<open>
  The configured chain, with a completion standing ready that is never asked for.
\<close>

theorem missing_body_answers_500_witness:
  "analyze (MODEL_FALLBACKS None) [Resolved completionHello] ''2025-01-01T00:00:00.000Z''
     JUndefined =
     ([], Some (500, JObj [(''error'', JStr ''Internal server error''),
                           (''message'',
                            JStr ''An unexpected error occurred while analyzing your entry'')])) \<and>
   analyze_server (MODEL_FALLBACKS None) [Resolved completionHello] JUndefined =
     ([], Some (500, JObj [(''error'', JStr ''Internal error''),
                           (''message'',
                            JStr (''Cannot destructure property '' @ [CHR 0x27] @ ''entry'' @
                              [CHR 0x27] @ '' of '' @ [CHR 0x27] @ ''req.body'' @ [CHR 0x27] @
                              '' as it is undefined.''))]))"
  by (rule missing_body_answers_500)

text \<open>
  Claim C9: when the transcription of an upload succeeds, the uploaded file is removed,
  whatever the transcribed text is; in both servers. (The upload middleware stores the
  file under a path that is not empty.)
\<close>

theorem upload_removed_after_transcription:
  "(transcribeAudio files (path f) fr = Inr t \<longrightarrow>
      fst (transcribe files now (Some f) fr) = files - {path f}) \<and>
   (transcribeAudio_server files (path f) fr = Inr t \<and> path f \<noteq> [] \<longrightarrow>
      fst (transcribe_server files (Some f) fr) = files - {path f})"
  by (auto simp: transcribe_def transcribe_server_def unlinkQuietly_def unlink_def Let_def)

text \<open>
  An upload whose transcription is the empty text.
\<close>

theorem upload_removed_after_transcription_witness:
  "transcribeAudio {path memo} (path memo) (Resolved emptyTranscription) = Inr (JStr []) \<and>
   transcribeAudio_server {path memo} (path memo) (Resolved emptyTranscription) = Inr (JStr []) \<and>
   path memo \<noteq> [] \<and>
   fst (transcribe {path memo} ''2025-01-01T00:00:00.000Z'' (Some memo)
          (Resolved emptyTranscription)) = {} \<and>
   fst (transcribe_server {path memo} (Some memo) (Resolved emptyTranscription)) = {}"
proof -
  have h1: "transcribeAudio {path memo} (path memo) (Resolved emptyTranscription) = Inr (JStr [])"
    by (simp add: transcribeAudio_def emptyTranscription_def ok_def propOf_def lookup_def)
  have h2: "transcribeAudio_server {path memo} (path memo) (Resolved emptyTranscription) =
      Inr (JStr [])"
    by (simp add: transcribeAudio_server_def emptyTranscription_def ok_def propOf_def lookup_def)
  have h3: "path memo \<noteq> []"
    by (simp add: memo_def)
  from upload_removed_after_transcription
    [of "{path memo}" memo "Resolved emptyTranscription" "JStr []"
      "''2025-01-01T00:00:00.000Z''"] h1 h2 h3
  show ?thesis by simp
qed

text \<open>
  Claim C10: of an entry longer than 10000 characters the route sends the first 10000 to
  the remote endpoint, and its answer does not tell: every request whose entry has the
  same first 10000 characters gets the same trace and the same reply.
\<close>

theorem long_entry_truncated:
  assumes "member body ''entry'' = JStr e" and "\<not> list_all isSpace e" and "length e > 10000"
  shows "set (userMessages (fst (analyze chain frs now body))) = {take 10000 e} \<and>
         (\<forall>body' e'. member body' ''entry'' = JStr e' \<and> \<not> list_all isSpace e' \<and>
             take 10000 e' = take 10000 e \<longrightarrow>
             analyze chain frs now body' = analyze chain frs now body)"
proof -
  have run: "analyze chain frs now b =
      (let r = callOpenRouter chain frs analyzePrompt (take 10000 x) 0 0
       in case snd r of
            None \<Rightarrow> (fst r, None)
          | Some (Inl er) \<Rightarrow> (fst r, Some (analyzeCatch er))
          | Some (Inr aiResponse) \<Rightarrow> (fst r, Some (analyzeReply now aiResponse)))"
    if "member b ''entry'' = JStr x" and "\<not> list_all isSpace x" for b x
  proof -
    from that(1) have "\<not> nullish b"
      by (cases b) auto
    moreover from that(2) have "x \<noteq> []" "trim x \<noteq> []"
      by (auto simp: trim_empty)
    moreover have "(if 10000 < length x then take 10000 x else x) = take 10000 x"
      by simp
    ultimately show ?thesis
      using that(1)
      by (simp add: analyze_def destructure_def strOf_def Let_def split: option.splits sum.splits)
  qed
  have "set (userMessages (fst (analyze chain frs now body))) = {take 10000 e}"
    using callOpenRouter_userMessages [of chain frs analyzePrompt "take 10000 e" 0 0]
    by (simp add: run [OF assms(1,2)] Let_def split: option.splits sum.splits)
  moreover have "analyze chain frs now body' = analyze chain frs now body"
    if "member body' ''entry'' = JStr e'" "\<not> list_all isSpace e'"
      "take 10000 e' = take 10000 e" for body' e'
    using that by (simp add: run [OF assms(1,2)] run [OF that(1,2)])
  ultimately show ?thesis by blast
qed

text \<open>
  An entry of 10001 characters, and the entry of its first 10000 characters.
\<close>

theorem long_entry_truncated_witness:
  "member (JObj [(''entry'', JStr (replicate 10001 CHR ''a''))]) ''entry'' =
     JStr (replicate 10001 CHR ''a'') \<and>
   \<not> list_all isSpace (replicate 10001 CHR ''a'') \<and>
   length (replicate 10001 CHR ''a'') > 10000 \<and>
   set (userMessages (fst (analyze (MODEL_FALLBACKS None) [Resolved completionHello]
          ''2025-01-01T00:00:00.000Z'' (JObj [(''entry'', JStr (replicate 10001 CHR ''a''))])))) =
     {replicate 10000 CHR ''a''} \<and>
   member (JObj [(''entry'', JStr (replicate 10000 CHR ''a''))]) ''entry'' =
     JStr (replicate 10000 CHR ''a'') \<and>
   \<not> list_all isSpace (replicate 10000 CHR ''a'') \<and>
   take 10000 (replicate 10000 CHR ''a'') = take 10000 (replicate 10001 CHR ''a'') \<and>
   analyze (MODEL_FALLBACKS None) [Resolved completionHello] ''2025-01-01T00:00:00.000Z''
     (JObj [(''entry'', JStr (replicate 10000 CHR ''a''))]) =
   analyze (MODEL_FALLBACKS None) [Resolved completionHello] ''2025-01-01T00:00:00.000Z''
     (JObj [(''entry'', JStr (replicate 10001 CHR ''a''))])"
proof -
  have h1: "member (JObj [(''entry'', JStr (replicate 10001 CHR ''a''))]) ''entry'' =
     JStr (replicate 10001 CHR ''a'')"
    by (simp add: lookup_def)
  have h2: "\<not> list_all isSpace (replicate 10001 CHR ''a'')"
    by (simp add: list_all_iff isSpace_def)
  have h3: "length (replicate 10001 CHR ''a'') > 10000"
    by simp
  have g1: "member (JObj [(''entry'', JStr (replicate 10000 CHR ''a''))]) ''entry'' =
     JStr (replicate 10000 CHR ''a'')"
    by (simp add: lookup_def)
  have g2: "\<not> list_all isSpace (replicate 10000 CHR ''a'')"
    by (simp add: list_all_iff isSpace_def)
  have g3: "take 10000 (replicate 10000 CHR ''a'') = take 10000 (replicate 10001 CHR ''a'')"
    by simp
  have e: "take 10000 (replicate 10001 CHR ''a'') = replicate 10000 CHR ''a''"
    by simp
  note t = long_entry_truncated [OF h1 h2 h3, of "MODEL_FALLBACKS None" "[Resolved completionHello]"
      "''2025-01-01T00:00:00.000Z''"]
  have a: "set (userMessages (fst (analyze (MODEL_FALLBACKS None) [Resolved completionHello]
          ''2025-01-01T00:00:00.000Z'' (JObj [(''entry'', JStr (replicate 10001 CHR ''a''))])))) =
     {replicate 10000 CHR ''a''}"
    using t unfolding e by (rule conjunct1)
  from t g1 g2 g3 have b: "analyze (MODEL_FALLBACKS None) [Resolved completionHello]
      ''2025-01-01T00:00:00.000Z'' (JObj [(''entry'', JStr (replicate 10000 CHR ''a''))]) =
    analyze (MODEL_FALLBACKS None) [Resolved completionHello] ''2025-01-01T00:00:00.000Z''
      (JObj [(''entry'', JStr (replicate 10001 CHR ''a''))])"
    by blast
  from h1 h2 h3 a g1 g2 g3 b show ?thesis by (intro conjI)
qed

text \<open>
  The route of \<^verbatim>\<open>server.js\<close> sends the whole entry.
\<close>

lemma analyze_server_sends_whole_entry:
  assumes "member body ''entry'' = JStr e" and "\<not> list_all isSpace e"
  shows "set (userMessages (fst (analyze_server chain frs body))) = {e}"
proof -
  from assms(1) have "\<not> nullish body"
    by (cases body) auto
  moreover from assms(2) have "e \<noteq> []" "trim e \<noteq> []"
    by (auto simp: trim_empty)
  ultimately show ?thesis
    using assms(1) callOpenRouter_server_userMessages [of chain frs analyzePrompt_server e 0 0]
    by (simp add: analyze_server_def destructure_def strOf_def Let_def
        split: option.splits sum.splits)
qed

end
